theory Spec2Isabelle
  imports Complex_Main "HOL-Library.Sublist"
begin

section \<open>Tab completion of the VS Code extension: \<open>getTabCompletion\<close>\<close>

text \<open>
  The development embeds \<^verbatim>\<open>extensions/vscode/src/autocomplete/getTabCompletion.ts\<close>.
  The function is asynchronous glue around many collaborators; the embedding makes every
  one of them explicit:
  \<^item> what the editor, the clipboard, the language server, the model loader, the prompt
    builder, the template table, Handlebars and the generator reuse manager answer during
    one call is a field of the record \<open>env\<close> (a fallible answer is a value of
    \<open>error + 'a\<close>, \<open>Inl\<close> being the exception thrown);
  \<^item> what survives a call (the completion cache, the set
    \<^verbatim>\<open>ContinueCompletionProvider.errorsShown\<close>) and the trace of calls made to the
    outside is the record \<open>world\<close>, passed in and returned;
  \<^item> the four generator transforms of \<^verbatim>\<open>core/autocomplete\<close> and
    \<^verbatim>\<open>core/diff/util\<close> are parameters, given as resumable stages, and chained
    lazily the way \<^verbatim>\<open>for await\<close> pulls through nested async generators.

  Strings are JavaScript strings whose code units are below 256, one \<open>char\<close> per code
  unit.
\<close>

subsection \<open>Thrown values\<close>

text \<open>
  What a \<^verbatim>\<open>throw\<close> or a rejected promise carries. JavaScript throws any value, and
  the \<^verbatim>\<open>catch\<close> block of the function reads \<^verbatim>\<open>e.message\<close> of what it caught:
  \<open>Nullish\<close> is \<^verbatim>\<open>undefined\<close> or \<^verbatim>\<open>null\<close>, on which that read itself throws;
  \<open>Thrown m\<close> is any other value, \<open>m\<close> being what the read gives (the message of an
  \<^verbatim>\<open>Error\<close>, or \<open>None\<close> for \<^verbatim>\<open>undefined\<close>, as on a thrown string).
\<close>

datatype error = Nullish | Thrown "string option"

subsection \<open>Strings\<close>

definition js_space :: "char \<Rightarrow> bool" where
  \<comment> \<open>the white space and line terminators of ECMAScript below code unit 256\<close>
  "js_space c = (c \<in> set [CHR 0x09, CHR 0x0A, CHR 0x0B, CHR 0x0C, CHR 0x0D, CHR 0x20, CHR 0xA0])"

definition trimEnd :: "string \<Rightarrow> string" where
  "trimEnd s = rev (dropWhile js_space (rev s))"

definition trim :: "string \<Rightarrow> string" where
  "trim s = dropWhile js_space (trimEnd s)"

definition endsWith :: "string \<Rightarrow> string \<Rightarrow> bool" where
  \<comment> \<open>\<^verbatim>\<open>line.endsWith(marker)\<close>\<close>
  "endsWith line marker = suffix marker line"

subsection \<open>Editor, language and option data\<close>

record position =
  line :: int
  character :: int

record text_document =
  fileName :: string
  uri_fsPath :: string
  uri_toString :: string
  lineCount :: int
  lineAtPosition :: "position \<Rightarrow> string"
  lineAt :: "int \<Rightarrow> string"
  getText :: "position \<Rightarrow> position \<Rightarrow> string"

record language =
  endOfLine :: "string list"
  stopWords :: "string list"

record tab_options =
  multilineCompletions :: string
  template :: "string option"

record completion_options =
  stop :: "string list option"
  temperature :: "rat option"
  raw :: "bool option"
  others :: "(string \<times> string) list"

definition no_options :: completion_options where
  \<comment> \<open>the object \<^verbatim>\<open>{}\<close>\<close>
  "no_options = \<lparr>stop = None, temperature = None, raw = None, others = []\<rparr>"

record llm =
  model :: string
  providerName :: string
  isOpenAI :: bool
  useLegacyCompletionsEndpoint :: bool

record prompt_request =
  pr_uri :: string
  pr_line :: int
  pr_fullPrefix :: string
  pr_fullSuffix :: string
  pr_clipboardText :: string
  pr_lang :: language
  pr_options :: tab_options
  pr_recentlyEditedRanges :: "string list"
  pr_recentlyEditedDocuments :: "string list"
  pr_modelName :: string
  pr_extrasSnippets :: "string list"

record prompt_parts =
  prefix_text :: string
  suffix_text :: string
  completeMultiline :: bool

record AutocompleteOutcome =
  time :: int
  completion :: string
  prompt :: string
  modelProvider :: string
  modelName :: string
  completionOptions :: "completion_options option"
  cacheHit :: bool

subsection \<open>The completion cache\<close>

text \<open>
  Modelled from the spec: \<^verbatim>\<open>AutocompleteLruCache\<close> of
  \<^verbatim>\<open>core/autocomplete/cache\<close> is not among the sources. Section 3 and 4.1 of the
  specification describe a store of bounded capacity from exact prompt to completion,
  evicting the least recently used entry; \<open>get\<close> marks the entry as most recently used,
  \<open>put\<close> inserts or overwrites. The entries are kept most recently used first.
\<close>

record lru_cache =
  capacity :: nat
  entries :: "(string \<times> string) list"

definition cache_lookup :: "lru_cache \<Rightarrow> string \<Rightarrow> string option" where
  "cache_lookup c k = map_of (entries c) k"

definition cache_get :: "lru_cache \<Rightarrow> string \<Rightarrow> string option \<times> lru_cache" where
  "cache_get c k =
     (case map_of (entries c) k of
        None \<Rightarrow> (None, c)
      | Some v \<Rightarrow> (Some v, c\<lparr>entries := (k, v) # filter (\<lambda>e. fst e \<noteq> k) (entries c)\<rparr>))"

definition cache_put :: "lru_cache \<Rightarrow> string \<Rightarrow> string \<Rightarrow> lru_cache" where
  "cache_put c k v =
     c\<lparr>entries := take (capacity c) ((k, v) # filter (\<lambda>e. fst e \<noteq> k) (entries c))\<rparr>"

subsection \<open>Async generators and their transforms\<close>

text \<open>
  A transform of \<^verbatim>\<open>core/autocomplete\<close> is an async generator function over an
  upstream generator. Its source is not at hand, so it is a parameter: a resumable stage
  that answers each chunk pulled from upstream with the chunks it yields and its next
  state (\<open>None\<close> when the generator returns), and yields its last chunks when upstream is
  exhausted.
\<close>

record 's stage =
  st_init :: 's
  st_step :: "'s \<Rightarrow> string \<Rightarrow> string list \<times> 's option"
  st_flush :: "'s \<Rightarrow> string list"

fun feed_all :: "('s, 'x) stage_scheme \<Rightarrow> 's \<Rightarrow> string list \<Rightarrow> string list \<times> 's option" where
  "feed_all T s [] = ([], Some s)"
| "feed_all T s (x # xs) =
     (case st_step T s x of
        (ys, None) \<Rightarrow> (ys, None)
      | (ys, Some s') \<Rightarrow> (case feed_all T s' xs of (zs, r) \<Rightarrow> (ys @ zs, r)))"

definition pipe :: "'a stage \<Rightarrow> 'b stage \<Rightarrow> ('a \<times> 'b) stage" where
  \<comment> \<open>\<^verbatim>\<open>B(A(upstream))\<close>: \<open>B\<close> pulls from \<open>A\<close>, which pulls from upstream; once \<open>B\<close>
      returns nothing is pulled any more, once \<open>A\<close> returns \<open>B\<close> sees the end of its input\<close>
  "pipe A B =
     \<lparr>st_init = (st_init A, st_init B),
      st_step = (\<lambda>(a, b) x.
        case st_step A a x of (ys, a') \<Rightarrow>
          (case feed_all B b ys of
             (zs, None) \<Rightarrow> (zs, None)
           | (zs, Some b') \<Rightarrow>
               (case a' of
                  None \<Rightarrow> (zs @ st_flush B b', None)
                | Some a'' \<Rightarrow> (zs, Some (a'', b'))))),
      st_flush = (\<lambda>(a, b).
        case feed_all B b (st_flush A a) of
          (zs, None) \<Rightarrow> zs
        | (zs, Some b') \<Rightarrow> zs @ st_flush B b')\<rparr>"

fun run_from :: "('s, 'x) stage_scheme \<Rightarrow> 's \<Rightarrow> string list \<Rightarrow> string list" where
  "run_from T s [] = st_flush T s"
| "run_from T s (x # xs) =
     (case st_step T s x of
        (ys, None) \<Rightarrow> ys
      | (ys, Some s') \<Rightarrow> ys @ run_from T s' xs)"

definition run :: "('s, 'x) stage_scheme \<Rightarrow> string list \<Rightarrow> string list" where
  \<comment> \<open>every chunk the generator yields over an upstream that yields \<open>xs\<close> and ends\<close>
  "run T xs = run_from T (st_init T) xs"

record ('a, 'b, 'c, 'd) transforms =
  onlyWhitespaceAfterEndOfLine :: "string list \<Rightarrow> 'a stage"
  streamLines :: "'b stage"
  streamWithNewLines :: "'c stage"
  stopAtSimilarLine :: "string \<Rightarrow> 'd stage"

definition finalGenerator ::
  "('a, 'b, 'c, 'd) transforms \<Rightarrow> language \<Rightarrow> string \<Rightarrow> ((('a \<times> 'b) \<times> 'c) \<times> 'd) stage" where
  "finalGenerator G lang lineBelowCursor =
     pipe (pipe (pipe (onlyWhitespaceAfterEndOfLine G (endOfLine lang)) (streamLines G))
                (streamWithNewLines G))
          (stopAtSimilarLine G lineBelowCursor)"

fun generatorWithCancellation :: "(nat \<Rightarrow> bool) \<Rightarrow> nat \<Rightarrow> string list \<Rightarrow> string list" where
  \<comment> \<open>the updates \<^verbatim>\<open>generatorWithCancellation\<close> yields when pulled to its end;
      \<open>tok i\<close> is what \<^verbatim>\<open>token.isCancellationRequested\<close> reads when result \<open>i\<close> of
      the generator arrives: update \<open>i\<close>, or the end of the stream after the last update\<close>
  "generatorWithCancellation tok i [] = []"
| "generatorWithCancellation tok i (d # ds) =
     (if tok i then [] else d # generatorWithCancellation tok (Suc i) ds)"

record loop_end =
  text_acc :: string
  cancelled :: bool
  received :: nat

fun consume ::
  "'s stage \<Rightarrow> (nat \<Rightarrow> bool) \<Rightarrow> nat \<Rightarrow> 's \<Rightarrow> string \<Rightarrow> string list \<Rightarrow> error option \<Rightarrow> error + loop_end" where
  "consume P tok i s acc [] fin =
     (case fin of
        Some e \<Rightarrow> Inl e
      | None \<Rightarrow> Inr \<lparr>text_acc = acc @ concat (st_flush P s), cancelled = False, received = i\<rparr>)"
| "consume P tok i s acc (d # ds) fin =
     (if tok i
      then Inr \<lparr>text_acc = acc @ concat (st_flush P s), cancelled = True, received = Suc i\<rparr>
      else case st_step P s d of
             (ys, None) \<Rightarrow> Inr \<lparr>text_acc = acc @ concat ys, cancelled = False, received = Suc i\<rparr>
           | (ys, Some s') \<Rightarrow> consume P tok (Suc i) s' (acc @ concat ys) ds fin)"

subsection \<open>Effects: the trace of outside calls and the state that survives a call\<close>

text \<open>
  One event for each call \<open>getTabCompletion\<close> makes to the outside, in the order made.
  \<open>StreamComplete\<close> is the call of \<^verbatim>\<open>llm.streamComplete\<close> by the start function
  handed to the reuse manager. \<open>CachePut\<close> is a write to the completion cache: the
  function has no such call, and the event is there for the callers of the function and
  for stating that a trace has none.
\<close>

datatype event =
    GetModel
  | ReadClipboard
  | GetDefinitionsFromLsp string string nat
  | GetRecentlyEditedRanges
  | GetRecentlyEditedDocuments
  | ConstructAutocompletePrompt prompt_request
  | CacheGet string
  | CachePut string string
  | SetupStatusBar bool bool
  | GetGenerator string
  | StreamComplete string completion_options
  | StopStatusBarLoading
  | ConsoleWarn error
  | ShowErrorMessage "string option"
  | OpenExternal string

record world =
  cache :: lru_cache
  errorsShown :: "string option set"
  trace :: "event list"

text \<open>
  The promise of \<^verbatim>\<open>getDefinitionsFromLsp\<close>: after how many milliseconds it settles
  (\<open>None\<close>: never) and with what. The timer of the race is taken to fire at its delay.
\<close>

record lsp_lookup =
  settles_after :: "nat option"
  answer :: "error + string list"

text \<open>
  What \<^verbatim>\<open>GeneratorReuseManager.getGenerator(prefix, newGenerator)\<close> does in one
  call (\<^verbatim>\<open>core/autocomplete/util\<close> is not among the sources, so it is an answer of
  the environment): whether it calls \<^verbatim>\<open>newGenerator\<close>, which updates the generator it
  hands back yields, and the exception that ends the generator, if one does.
\<close>

record reuse_answer =
  starts_model :: bool
  updates :: "string list"
  failure :: "error option"

record env =
  languageForFilepath :: "string \<Rightarrow> language"
  clock_start :: int
  clock_end :: int
  modelGet :: "error + llm option"
  clipboardText :: "error + string"
  lspLookup :: lsp_lookup
  lookupWinsTie :: bool
  recentlyEditedRanges :: "error + string list"
  recentlyEditedDocuments :: "error + string list"
  constructAutocompletePrompt :: "prompt_request \<Rightarrow> error + prompt_parts"
  getTemplateForModel :: "string \<Rightarrow> string \<times> completion_options option"
  renderTemplate :: "string \<Rightarrow> string \<Rightarrow> string \<Rightarrow> error + string"
  getGenerator :: "string \<Rightarrow> string \<Rightarrow> completion_options \<Rightarrow> reuse_answer"
  isCancellationRequested :: "nat \<Rightarrow> bool"
  dialogAnswer :: "string option"

type_synonym 'a io = "event list \<times> (error + 'a)"

definition call :: "event \<Rightarrow> error + 'a \<Rightarrow> 'a io" where
  "call ev r = ([ev], r)"

definition silent :: "error + 'a \<Rightarrow> 'a io" where
  "silent r = ([], r)"

definition andThen :: "'a io \<Rightarrow> ('a \<Rightarrow> 'b io) \<Rightarrow> 'b io" where
  "andThen m f =
     (case m of
        (es, Inl e) \<Rightarrow> (es, Inl e)
      | (es, Inr a) \<Rightarrow> (case f a of (es', r) \<Rightarrow> (es @ es', r)))"

subsection \<open>\<open>getTabCompletion\<close>\<close>

definition MAX_SAFE_INTEGER :: int where
  "MAX_SAFE_INTEGER = 9007199254740991"

definition filtered :: "language \<Rightarrow> string \<Rightarrow> position \<Rightarrow> bool" where
  \<comment> \<open>the loop under \<^verbatim>\<open>// Filter\<close>\<close>
  "filtered lang lineText pos =
     list_ex (\<lambda>marker. endsWith lineText marker \<and> int (length lineText) \<le> character pos) (endOfLine lang)"

definition extrasSnippets :: "env \<Rightarrow> error + string list" where
  \<comment> \<open>\<^verbatim>\<open>Promise.race([getDefinitionsFromLsp(...), timeout 100 resolving to []])\<close>\<close>
  "extrasSnippets env =
     (case settles_after (lspLookup env) of
        None \<Rightarrow> Inr []
      | Some t \<Rightarrow>
          if t < 100 \<or> (t = 100 \<and> lookupWinsTie env) then answer (lspLookup env) else Inr [])"

definition chooseTemplate :: "env \<Rightarrow> tab_options \<Rightarrow> llm \<Rightarrow> string \<times> completion_options option" where
  "chooseTemplate env options m =
     (case template options of
        Some (c # cs) \<Rightarrow> (c # cs, Some no_options)
      | _ \<Rightarrow> getTemplateForModel env (model m))"

record request =
  rq_llm :: llm
  rq_lineBelowCursor :: string
  rq_prefix :: string
  rq_completeMultiline :: bool
  rq_completionOptions :: "completion_options option"
  rq_prompt :: string

definition build_request ::
  "env \<Rightarrow> text_document \<Rightarrow> position \<Rightarrow> tab_options \<Rightarrow> language \<Rightarrow> request option io" where
  \<comment> \<open>the parts \<^verbatim>\<open>// Model\<close> and \<^verbatim>\<open>// Prompt\<close> of the \<^verbatim>\<open>try\<close> block\<close>
  "build_request env document pos options lang =
     andThen (call GetModel (modelGet env)) (\<lambda>got.
       case got of
         None \<Rightarrow> silent (Inr None)
       | Some m0 \<Rightarrow>
           (let m = (if isOpenAI m0 then m0\<lparr>useLegacyCompletionsEndpoint := True\<rparr> else m0);
                fullPrefix = getText document \<lparr>line = 0, character = 0\<rparr> pos;
                fullSuffix = getText document pos
                               \<lparr>line = lineCount document, character = MAX_SAFE_INTEGER\<rparr>;
                lineBelowCursor = lineAt document (min (line pos + 1) (lineCount document - 1))
            in
            andThen (call ReadClipboard (clipboardText env)) (\<lambda>clip.
            andThen (call (GetDefinitionsFromLsp (uri_fsPath document) (fullPrefix @ fullSuffix)
                             (length fullPrefix))
                          (extrasSnippets env)) (\<lambda>extras.
            andThen (call GetRecentlyEditedRanges (recentlyEditedRanges env)) (\<lambda>ranges.
            andThen (call GetRecentlyEditedDocuments (recentlyEditedDocuments env)) (\<lambda>docs.
            andThen (let asked =
                       \<lparr>pr_uri = uri_toString document, pr_line = line pos,
                        pr_fullPrefix = fullPrefix, pr_fullSuffix = fullSuffix,
                        pr_clipboardText = clip, pr_lang = lang, pr_options = options,
                        pr_recentlyEditedRanges = ranges, pr_recentlyEditedDocuments = docs,
                        pr_modelName = model m, pr_extrasSnippets = extras\<rparr>
                     in call (ConstructAutocompletePrompt asked)
                          (constructAutocompletePrompt env asked)) (\<lambda>parts.
            case chooseTemplate env options m of (tpl, copts) \<Rightarrow>
            andThen (silent (renderTemplate env tpl (prefix_text parts) (suffix_text parts)))
              (\<lambda>rendered.
                 silent (Inr (Some \<lparr>rq_llm = m, rq_lineBelowCursor = lineBelowCursor,
                                     rq_prefix = prefix_text parts,
                                     rq_completeMultiline = completeMultiline parts,
                                     rq_completionOptions = copts,
                                     rq_prompt = rendered\<rparr>))))))))))"

definition stop_sequences ::
  "completion_options option \<Rightarrow> language \<Rightarrow> tab_options \<Rightarrow> bool \<Rightarrow> string list" where
  "stop_sequences copts lang options multi =
     (let stop0 = (case copts of
                     None \<Rightarrow> []
                   | Some co \<Rightarrow> (case stop co of None \<Rightarrow> [] | Some xs \<Rightarrow> xs))
                  @ [[CHR 0x0A, CHR 0x0A], ''```''] @ stopWords lang
      in if multilineCompletions options \<noteq> ''always''
            \<and> (multilineCompletions options = ''never'' \<or> \<not> multi)
         then [CHR 0x0A] # stop0
         else stop0)"

definition model_options :: "completion_options option \<Rightarrow> string list \<Rightarrow> completion_options" where
  \<comment> \<open>\<^verbatim>\<open>{ ...completionOptions, temperature: 0, raw: true, stop }\<close>\<close>
  "model_options copts stop' =
     (case copts of None \<Rightarrow> no_options | Some co \<Rightarrow> co)
       \<lparr>stop := Some stop', temperature := Some 0, raw := Some True\<rparr>"

definition outcome :: "env \<Rightarrow> request \<Rightarrow> string \<Rightarrow> bool \<Rightarrow> AutocompleteOutcome" where
  "outcome env rq txt hit =
     \<lparr>time = clock_end env - clock_start env, completion = txt, prompt = rq_prompt rq,
      modelProvider = providerName (rq_llm rq), modelName = model (rq_llm rq),
      completionOptions = rq_completionOptions rq, cacheHit = hit\<rparr>"

text \<open>
  How a call ends: the promise resolves to an outcome or to \<^verbatim>\<open>undefined\<close>, or it
  rejects. The one rejection in the function is the \<^verbatim>\<open>TypeError\<close> of the
  \<^verbatim>\<open>catch\<close> block reading \<^verbatim>\<open>e.message\<close> of \<^verbatim>\<open>undefined\<close> or
  \<^verbatim>\<open>null\<close>.
\<close>

datatype resolution = Resolved "AutocompleteOutcome option" | Rejected

definition on_error :: "env \<Rightarrow> error \<Rightarrow> world \<Rightarrow> resolution \<times> world" where
  \<comment> \<open>the \<^verbatim>\<open>catch\<close> block\<close>
  "on_error env e w =
     (let w1 = w\<lparr>trace := trace w @ [ConsoleWarn e]\<rparr>
      in case e of
           Nullish \<Rightarrow> (Rejected, w1)
         | Thrown m \<Rightarrow>
             (Resolved None,
              if m \<in> errorsShown w1 then w1
              else w1\<lparr>errorsShown := insert m (errorsShown w1),
                      trace := trace w1 @ ShowErrorMessage m #
                        (if dialogAnswer env = Some ''Documentation''
                         then [OpenExternal
                                 ''https://continue.dev/docs/walkthroughs/tab-autocomplete'']
                         else [])\<rparr>))"

definition request_options :: "language \<Rightarrow> tab_options \<Rightarrow> request \<Rightarrow> completion_options" where
  \<comment> \<open>the second argument of \<^verbatim>\<open>llm.streamComplete\<close>\<close>
  "request_options lang options rq =
     model_options (rq_completionOptions rq)
       (stop_sequences (rq_completionOptions rq) lang options (rq_completeMultiline rq))"

definition generator :: "env \<Rightarrow> language \<Rightarrow> tab_options \<Rightarrow> request \<Rightarrow> reuse_answer" where
  \<comment> \<open>\<^verbatim>\<open>GeneratorReuseManager.getGenerator(prefix, () => llm.streamComplete(prompt, ...))\<close>\<close>
  "generator env lang options rq =
     getGenerator env (rq_prefix rq) (rq_prompt rq) (request_options lang options rq)"

definition stream_loop ::
  "('a, 'b, 'c, 'd) transforms \<Rightarrow> env \<Rightarrow> language \<Rightarrow> tab_options \<Rightarrow> request \<Rightarrow> error + loop_end" where
  \<comment> \<open>\<^verbatim>\<open>for await (const update of finalGenerator) completion += update\<close>\<close>
  "stream_loop G env lang options rq =
     (let P = finalGenerator G lang (rq_lineBelowCursor rq);
          g = generator env lang options rq
      in consume P (isCancellationRequested env) 0 (st_init P) [] (updates g) (failure g))"

definition generate ::
  "('a, 'b, 'c, 'd) transforms \<Rightarrow> env \<Rightarrow> language \<Rightarrow> tab_options \<Rightarrow> request \<Rightarrow> world
     \<Rightarrow> resolution \<times> world" where
  \<comment> \<open>the \<^verbatim>\<open>else\<close> branch of the cache probe\<close>
  "generate G env lang options rq w =
     (let w1 = w\<lparr>trace := trace w @ [SetupStatusBar True True, GetGenerator (rq_prefix rq)]
                      @ (if starts_model (generator env lang options rq)
                         then [StreamComplete (rq_prompt rq) (request_options lang options rq)]
                         else [])\<rparr>
      in case stream_loop G env lang options rq of
           Inl e \<Rightarrow> on_error env e w1
         | Inr r \<Rightarrow>
             if cancelled r
             then (Resolved None, w1\<lparr>trace := trace w1 @ [StopStatusBarLoading]\<rparr>)
             else if trim (text_acc r) = [] then (Resolved None, w1)
             else (Resolved (Some (outcome env rq (trimEnd (text_acc r)) False)), w1))"

definition complete ::
  "('a, 'b, 'c, 'd) transforms \<Rightarrow> env \<Rightarrow> language \<Rightarrow> tab_options \<Rightarrow> request \<Rightarrow> world
     \<Rightarrow> resolution \<times> world" where
  \<comment> \<open>the part \<^verbatim>\<open>// Completion\<close>: the cache probe and what follows\<close>
  "complete G env lang options rq w0 =
     (case cache_get (cache w0) (rq_prompt rq) of (cachedCompletion, c') \<Rightarrow>
        (let w = w0\<lparr>cache := c', trace := trace w0 @ [CacheGet (rq_prompt rq)]\<rparr>
         in case cachedCompletion of
              Some (ch # rest) \<Rightarrow> (Resolved (Some (outcome env rq (ch # rest) True)), w)
            | _ \<Rightarrow> generate G env lang options rq w))"

definition getTabCompletion ::
  "('a, 'b, 'c, 'd) transforms \<Rightarrow> env \<Rightarrow> text_document \<Rightarrow> position \<Rightarrow> tab_options \<Rightarrow> world
     \<Rightarrow> resolution \<times> world" where
  "getTabCompletion G env document pos options w =
     (let lang = languageForFilepath env (fileName document);
          lineText = lineAtPosition document pos
      in if filtered lang lineText pos then (Resolved None, w)
         else case build_request env document pos options lang of
                (es, Inl e) \<Rightarrow> on_error env e (w\<lparr>trace := trace w @ es\<rparr>)
              | (es, Inr None) \<Rightarrow> (Resolved None, w\<lparr>trace := trace w @ es\<rparr>)
              | (es, Inr (Some rq)) \<Rightarrow> complete G env lang options rq (w\<lparr>trace := trace w @ es\<rparr>))"

subsection \<open>Notions used to state the properties\<close>

definition shaped ::
  "('a, 'b, 'c, 'd) transforms \<Rightarrow> language \<Rightarrow> string \<Rightarrow> string list \<Rightarrow> string" where
  \<comment> \<open>the transforms run one after the other, each to its end, over the updates \<open>ds\<close>:
      first \<open>onlyWhitespaceAfterEndOfLine\<close>, then \<open>streamLines\<close> and
      \<open>streamWithNewLines\<close>, then \<open>stopAtSimilarLine\<close>; and the chunks of the last joined\<close>
  "shaped G lang lineBelowCursor ds =
     concat (run (stopAtSimilarLine G lineBelowCursor)
       (run (streamWithNewLines G)
         (run (streamLines G)
           (run (onlyWhitespaceAfterEndOfLine G (endOfLine lang)) ds))))"

definition language_of :: "env \<Rightarrow> text_document \<Rightarrow> language" where
  "language_of env document = languageForFilepath env (fileName document)"

definition passes_filter :: "env \<Rightarrow> text_document \<Rightarrow> position \<Rightarrow> bool" where
  "passes_filter env document pos =
     (\<not> filtered (language_of env document) (lineAtPosition document pos) pos)"

definition cache_miss :: "world \<Rightarrow> request \<Rightarrow> bool" where
  \<comment> \<open>\<^verbatim>\<open>cachedCompletion\<close> is falsy: no entry, or the empty string\<close>
  "cache_miss w rq =
     (case cache_lookup (cache w) (rq_prompt rq) of None \<Rightarrow> True | Some v \<Rightarrow> v = [])"

definition probed :: "world \<Rightarrow> event list \<Rightarrow> request \<Rightarrow> world" where
  \<comment> \<open>the world once the request is built and the cache has been asked\<close>
  "probed w es rq =
     w\<lparr>cache := snd (cache_get (cache w) (rq_prompt rq)),
       trace := trace w @ es @ [CacheGet (rq_prompt rq)]\<rparr>"

definition messages :: "event list \<Rightarrow> string option list" where
  \<comment> \<open>the messages handed to \<^verbatim>\<open>vscode.window.showErrorMessage\<close> in a trace, in order\<close>
  "messages es = concat (map (\<lambda>ev. case ev of ShowErrorMessage m \<Rightarrow> [m] | _ \<Rightarrow> []) es)"

definition shown :: "world \<Rightarrow> string option list" where
  "shown w = messages (trace w)"

definition model_calls :: "event list \<Rightarrow> (string \<times> completion_options) list" where
  \<comment> \<open>the calls of \<^verbatim>\<open>llm.streamComplete\<close> in a trace\<close>
  "model_calls es = concat (map (\<lambda>ev. case ev of StreamComplete p co \<Rightarrow> [(p, co)] | _ \<Rightarrow> []) es)"

definition prompt_requests :: "event list \<Rightarrow> prompt_request list" where
  \<comment> \<open>the calls of \<^verbatim>\<open>constructAutocompletePrompt\<close> in a trace\<close>
  "prompt_requests es =
     concat (map (\<lambda>ev. case ev of ConstructAutocompletePrompt r \<Rightarrow> [r] | _ \<Rightarrow> []) es)"

definition cache_writes :: "event list \<Rightarrow> (string \<times> string) list" where
  "cache_writes es = concat (map (\<lambda>ev. case ev of CachePut k v \<Rightarrow> [(k, v)] | _ \<Rightarrow> []) es)"

definition quiet :: "event list \<Rightarrow> bool" where
  \<comment> \<open>a trace with no model call, no cache write and no error message\<close>
  "quiet es = (model_calls es = [] \<and> cache_writes es = [] \<and> messages es = [])"

definition shown_once :: "world \<Rightarrow> bool" where
  \<comment> \<open>no message has been shown twice, and every message shown is in
      \<^verbatim>\<open>errorsShown\<close>; true of the world in which the extension starts\<close>
  "shown_once w = (distinct (shown w) \<and> set (shown w) \<subseteq> errorsShown w)"

record invocation =
  in_env :: env
  in_document :: text_document
  in_position :: position
  in_options :: tab_options

fun getTabCompletions ::
  "('a, 'b, 'c, 'd) transforms \<Rightarrow> invocation list \<Rightarrow> world \<Rightarrow> world" where
  \<comment> \<open>one call after the other, each on the world the one before left\<close>
  "getTabCompletions G [] w = w"
| "getTabCompletions G (c # cs) w =
     getTabCompletions G cs
       (snd (getTabCompletion G (in_env c) (in_document c) (in_position c) (in_options c) w))"

definition raised ::
  "('a, 'b, 'c, 'd) transforms \<Rightarrow> env \<Rightarrow> text_document \<Rightarrow> position \<Rightarrow> tab_options \<Rightarrow> world
     \<Rightarrow> error option" where
  \<comment> \<open>the exception thrown inside the \<^verbatim>\<open>try\<close> block of a call, if one is\<close>
  "raised G env document pos options w =
     (if \<not> passes_filter env document pos then None
      else case build_request env document pos options (language_of env document) of
             (es, Inl e) \<Rightarrow> Some e
           | (es, Inr None) \<Rightarrow> None
           | (es, Inr (Some rq)) \<Rightarrow>
               if cache_miss w rq
               then (case stream_loop G env (language_of env document) options rq of
                       Inl e \<Rightarrow> Some e
                     | Inr r \<Rightarrow> None)
               else None)"

subsection \<open>Sample collaborators for concrete evaluation\<close>

text \<open>
  Small stand-ins for the parameters, used only to run the model on concrete calls:
  a stage that passes every chunk on, and a stopper that ends at a chunk equal to the
  line below the cursor.
\<close>

definition relay :: "unit stage" where
  "relay = \<lparr>st_init = (), st_step = (\<lambda>s x. ([x], Some s)), st_flush = (\<lambda>s. [])\<rparr>"

definition stop_when_equal :: "string \<Rightarrow> unit stage" where
  "stop_when_equal l =
     \<lparr>st_init = (), st_step = (\<lambda>s x. if x = l then ([], None) else ([x], Some s)),
      st_flush = (\<lambda>s. [])\<rparr>"

definition sample_transforms :: "(unit, unit, unit, unit) transforms" where
  "sample_transforms =
     \<lparr>onlyWhitespaceAfterEndOfLine = (\<lambda>markers. relay), streamLines = relay,
      streamWithNewLines = relay, stopAtSimilarLine = stop_when_equal\<rparr>"

definition sample_document :: text_document where
  "sample_document =
     \<lparr>fileName = ''a.ts'', uri_fsPath = ''/w/a.ts'', uri_toString = ''file:///w/a.ts'',
      lineCount = 2,
      lineAtPosition = (\<lambda>p. if line p = 0 then ''let x = '' else ''f();''),
      lineAt = (\<lambda>i. if i = 0 then ''let x = '' else ''f();''),
      getText = (\<lambda>a b. if line a = 0 \<and> character a = 0 then ''let x = '' else ''f();'')\<rparr>"

definition sample_llm :: llm where
  "sample_llm =
     \<lparr>model = ''starcoder'', providerName = ''ollama'', isOpenAI = False,
      useLegacyCompletionsEndpoint = False\<rparr>"

definition sample_template_options :: completion_options where
  "sample_template_options =
     \<lparr>stop = Some [''<EOT>''], temperature = Some (1 / 2), raw = None,
      others = [(''maxTokens'', ''100'')]\<rparr>"

definition sample_env :: env where
  "sample_env =
     \<lparr>languageForFilepath = (\<lambda>f. \<lparr>endOfLine = ['';''], stopWords = [''function'']\<rparr>),
      clock_start = 1000, clock_end = 1250,
      modelGet = Inr (Some sample_llm),
      clipboardText = Inr ''clip'',
      lspLookup = \<lparr>settles_after = Some 20, answer = Inr [''def f()'']\<rparr>,
      lookupWinsTie = False,
      recentlyEditedRanges = Inr [],
      recentlyEditedDocuments = Inr [],
      constructAutocompletePrompt =
        (\<lambda>r. Inr \<lparr>prefix_text = pr_fullPrefix r, suffix_text = pr_fullSuffix r,
                   completeMultiline = True\<rparr>),
      getTemplateForModel = (\<lambda>m. (''t'', Some sample_template_options)),
      renderTemplate = (\<lambda>t p s. Inr (p @ ''|'' @ s)),
      getGenerator = (\<lambda>p q co. \<lparr>starts_model = True, updates = [''4'', ''2;  ''], failure = None\<rparr>),
      isCancellationRequested = (\<lambda>i. False),
      dialogAnswer = None\<rparr>"

definition sample_options :: tab_options where
  "sample_options = \<lparr>multilineCompletions = ''auto'', template = None\<rparr>"

definition sample_position :: position where
  "sample_position = \<lparr>line = 0, character = 8\<rparr>"

definition sample_world :: world where
  "sample_world = \<lparr>cache = \<lparr>capacity = 8, entries = []\<rparr>, errorsShown = {}, trace = []\<rparr>"

definition sample_request :: request where
  \<comment> \<open>what the sample call builds\<close>
  "sample_request =
     \<lparr>rq_llm = sample_llm, rq_lineBelowCursor = ''f();'', rq_prefix = ''let x = '',
      rq_completeMultiline = True, rq_completionOptions = Some sample_template_options,
      rq_prompt = ''let x = |f();''\<rparr>"

definition sample_prompt_request :: "string list \<Rightarrow> prompt_request" where
  \<comment> \<open>what the sample call asks of the prompt builder, given the snippets\<close>
  "sample_prompt_request snippets =
     \<lparr>pr_uri = ''file:///w/a.ts'', pr_line = 0, pr_fullPrefix = ''let x = '',
      pr_fullSuffix = ''f();'', pr_clipboardText = ''clip'',
      pr_lang = \<lparr>endOfLine = ['';''], stopWords = [''function'']\<rparr>,
      pr_options = sample_options, pr_recentlyEditedRanges = [],
      pr_recentlyEditedDocuments = [], pr_modelName = ''starcoder'',
      pr_extrasSnippets = snippets\<rparr>"

definition sample_events_with :: "string list \<Rightarrow> event list" where
  "sample_events_with snippets =
     [GetModel, ReadClipboard, GetDefinitionsFromLsp ''/w/a.ts'' ''let x = f();'' 8,
      GetRecentlyEditedRanges, GetRecentlyEditedDocuments,
      ConstructAutocompletePrompt (sample_prompt_request snippets)]"

definition sample_events :: "event list" where
  "sample_events = sample_events_with [''def f()'']"

definition world_holding :: "string \<Rightarrow> world" where
  \<comment> \<open>a world whose cache holds \<open>v\<close> under the prompt of the sample call\<close>
  "world_holding v = sample_world\<lparr>cache := \<lparr>capacity = 8, entries = [(''let x = |f();'', v)]\<rparr>\<rparr>"

definition sample_env_blank :: env where
  \<comment> \<open>the model answers with white space only\<close>
  "sample_env_blank =
     sample_env\<lparr>getGenerator :=
       (\<lambda>p q co. \<lparr>starts_model = True, updates = [''  '', '' ''], failure = None\<rparr>)\<rparr>"

definition sample_env_cancelling :: env where
  \<comment> \<open>the token is tripped between the first and the second update\<close>
  "sample_env_cancelling = sample_env\<lparr>isCancellationRequested := (\<lambda>i. 1 \<le> i)\<rparr>"

definition sample_env_reusing :: env where
  \<comment> \<open>the reuse manager hands back a pending generator and starts no new one\<close>
  "sample_env_reusing =
     sample_env\<lparr>getGenerator :=
       (\<lambda>p q co. \<lparr>starts_model = False, updates = [''7;''], failure = None\<rparr>)\<rparr>"

definition sample_env_no_model :: env where
  \<comment> \<open>loading the model throws\<close>
  "sample_env_no_model = sample_env\<lparr>modelGet := Inl (Thrown (Some ''model not found''))\<rparr>"

definition sample_env_broken_stream :: env where
  \<comment> \<open>the stream throws after its first update\<close>
  "sample_env_broken_stream =
     sample_env\<lparr>getGenerator :=
       (\<lambda>p q co. \<lparr>starts_model = True, updates = [''4''],
                  failure = Some (Thrown (Some ''model not found''))\<rparr>)\<rparr>"

definition sample_env_slow_lookup :: env where
  \<comment> \<open>the language server answers after a quarter of a second, with a failure\<close>
  "sample_env_slow_lookup =
     sample_env\<lparr>lspLookup :=
       \<lparr>settles_after = Some 250, answer = Inl (Thrown (Some ''server crashed''))\<rparr>\<rparr>"

definition sample_invocations :: "invocation list" where
  \<comment> \<open>three calls in a row that fail with one and the same message, in two different places\<close>
  "sample_invocations =
     [\<lparr>in_env = sample_env_no_model, in_document = sample_document,
       in_position = sample_position, in_options = sample_options\<rparr>,
      \<lparr>in_env = sample_env_broken_stream, in_document = sample_document,
       in_position = sample_position, in_options = sample_options\<rparr>,
      \<lparr>in_env = sample_env_no_model, in_document = sample_document,
       in_position = sample_position, in_options = sample_options\<rparr>]"

definition on_time :: "lsp_lookup \<Rightarrow> bool" where
  \<comment> \<open>the lookup settles within 100 milliseconds\<close>
  "on_time l = (case settles_after l of None \<Rightarrow> False | Some t \<Rightarrow> t \<le> 100)"

definition sample_world_after :: world where
  \<comment> \<open>the world the sample call leaves when made on \<open>sample_world\<close>\<close>
  "sample_world_after =
     sample_world\<lparr>trace := sample_events @
       [CacheGet ''let x = |f();'', SetupStatusBar True True, GetGenerator ''let x = '',
        StreamComplete ''let x = |f();''
          \<lparr>stop = Some [''<EOT>'', [CHR 0x0A, CHR 0x0A], ''```'', ''function''],
           temperature = Some 0, raw = Some True, others = [(''maxTokens'', ''100'')]\<rparr>]\<rparr>"

definition sample_env_late_trip :: env where
  \<comment> \<open>the token is tripped after the second and last update, before the stream ends\<close>
  "sample_env_late_trip = sample_env\<lparr>isCancellationRequested := (\<lambda>i. 2 \<le> i)\<rparr>"

definition sample_env_rejected_bare :: env where
  \<comment> \<open>loading the model rejects with no reason given, as \<^verbatim>\<open>Promise.reject()\<close> does\<close>
  "sample_env_rejected_bare = sample_env\<lparr>modelGet := Inl Nullish\<rparr>"

definition before_timer :: "lsp_lookup \<Rightarrow> bool" where
  \<comment> \<open>the lookup settles before the timer of 100 milliseconds fires\<close>
  "before_timer l = (case settles_after l of None \<Rightarrow> False | Some t \<Rightarrow> t < 100)"

text \<open>
  Stages in the manner of section 4.3 of the specification, to run the chain on a stream
  where the order of the stages shows: one that drops blank chunks after a chunk ending
  in an end-of-line marker, one that cuts the stream into lines, one that puts a newline
  between the lines.
\<close>

fun split_lines :: "string \<Rightarrow> string \<Rightarrow> string list \<times> string" where
  "split_lines cur [] = ([], cur)"
| "split_lines cur (c # cs) =
     (if c = CHR 0x0A then (case split_lines [] cs of (ls, r) \<Rightarrow> (cur # ls, r))
      else split_lines (cur @ [c]) cs)"

definition blank_dropper :: "string list \<Rightarrow> bool stage" where
  "blank_dropper markers =
     \<lparr>st_init = False,
      st_step = (\<lambda>after x. if after \<and> list_all js_space x then ([], Some after)
                            else ([x], Some (list_ex (endsWith x) markers))),
      st_flush = (\<lambda>after. [])\<rparr>"

definition line_splitter :: "string stage" where
  "line_splitter =
     \<lparr>st_init = [],
      st_step = (\<lambda>buf x. case split_lines buf x of (ls, r) \<Rightarrow> (ls, Some r)),
      st_flush = (\<lambda>buf. if buf = [] then [] else [buf])\<rparr>"

definition newline_joiner :: "bool stage" where
  "newline_joiner =
     \<lparr>st_init = True,
      st_step = (\<lambda>first x. (if first then [x] else [[CHR 0x0A], x], Some False)),
      st_flush = (\<lambda>first. [])\<rparr>"

definition line_transforms :: "(bool, string, bool, unit) transforms" where
  "line_transforms =
     \<lparr>onlyWhitespaceAfterEndOfLine = blank_dropper, streamLines = line_splitter,
      streamWithNewLines = newline_joiner, stopAtSimilarLine = stop_when_equal\<rparr>"

definition sample_env_lines :: env where
  \<comment> \<open>the model writes a statement, blanks, and then the line below the cursor and more\<close>
  "sample_env_lines =
     sample_env\<lparr>getGenerator :=
       (\<lambda>p q co. \<lparr>starts_model = True,
                  updates = [''1;'', ''  '', CHR 0x0A # ''f('', '');'' @ CHR 0x0A # ''g();''],
                  failure = None\<rparr>)\<rparr>"

section \<open>Properties\<close>

subsection \<open>Lazy chaining of generators agrees with running one after the other\<close>

lemma pipe_sel:
  "st_init (pipe A B) = (st_init A, st_init B)"
  "st_step (pipe A B) (a, b) x =
     (case st_step A a x of (ys, a') \<Rightarrow>
          (case feed_all B b ys of
             (zs, None) \<Rightarrow> (zs, None)
           | (zs, Some b') \<Rightarrow>
               (case a' of
                  None \<Rightarrow> (zs @ st_flush B b', None)
                | Some a'' \<Rightarrow> (zs, Some (a'', b')))))"
  "st_flush (pipe A B) (a, b) =
     (case feed_all B b (st_flush A a) of
          (zs, None) \<Rightarrow> zs
        | (zs, Some b') \<Rightarrow> zs @ st_flush B b')"
  by (simp_all add: pipe_def)

lemma run_from_feed:
  "run_from T s (xs @ ys) =
     (case feed_all T s xs of (zs, None) \<Rightarrow> zs | (zs, Some s') \<Rightarrow> zs @ run_from T s' ys)"
  by (induction xs arbitrary: s) (auto split: prod.splits option.splits)

lemma run_from_feed_flush:
  "run_from T s xs = (case feed_all T s xs of (zs, None) \<Rightarrow> zs | (zs, Some s') \<Rightarrow> zs @ st_flush T s')"
  by (induction xs arbitrary: s) (auto split: prod.splits option.splits)

lemma run_from_pipe:
  "run_from (pipe A B) (a, b) xs = run_from B b (run_from A a xs)"
proof (induction xs arbitrary: a b)
  case Nil
  show ?case by (simp add: pipe_sel run_from_feed_flush)
next
  case (Cons x xs)
  obtain ys a' where A: "st_step A a x = (ys, a')" by (cases "st_step A a x")
  obtain zs r where B: "feed_all B b ys = (zs, r)" by (cases "feed_all B b ys")
  show ?case
  proof (cases a')
    case None
    then show ?thesis using A B
      by (simp add: pipe_sel run_from_feed_flush[of B b ys] split: option.splits)
  next
    case (Some a'')
    then show ?thesis using A B
      by (simp add: pipe_sel run_from_feed Cons.IH split: option.splits)
  qed
qed

lemma run_pipe: "run (pipe A B) xs = run B (run A xs)"
  by (simp add: run_def run_from_pipe pipe_sel)

lemma run_finalGenerator:
  "run (finalGenerator G lang l) xs =
     run (stopAtSimilarLine G l) (run (streamWithNewLines G) (run (streamLines G)
       (run (onlyWhitespaceAfterEndOfLine G (endOfLine lang)) xs)))"
  by (simp add: finalGenerator_def run_pipe)

lemma consume_text:
  "consume P tok i s acc ds fin = Inr r \<Longrightarrow>
     text_acc r = acc @ concat (run_from P s (generatorWithCancellation tok i ds))"
  by (induction ds arbitrary: i s acc) (auto split: option.splits prod.splits if_splits)

lemma consume_cancelled:
  "feed_all P s (take n ds) = (ys, Some s') \<Longrightarrow> n < length ds \<Longrightarrow> tok (i + n) \<Longrightarrow>
   (\<forall>j < n. \<not> tok (i + j)) \<Longrightarrow>
   consume P tok i s acc ds fin =
     Inr \<lparr>text_acc = acc @ concat ys @ concat (st_flush P s'), cancelled = True, received = Suc (i + n)\<rparr>"
proof (induction n arbitrary: i s acc ds ys)
  case 0
  then show ?case by (cases ds) auto
next
  case (Suc n)
  then obtain d ds' where ds: "ds = d # ds'" by (cases ds) auto
  from Suc.prems(4) have nt: "\<not> tok i" by force
  from Suc.prems(1) ds obtain y1 s1 ys' where
    st: "st_step P s d = (y1, Some s1)" and fa: "feed_all P s1 (take n ds') = (ys', Some s')" and ys: "ys = y1 @ ys'"
    by (auto split: prod.splits option.splits)
  have "consume P tok (Suc i) s1 (acc @ concat y1) ds' fin =
     Inr \<lparr>text_acc = (acc @ concat y1) @ concat ys' @ concat (st_flush P s'), cancelled = True, received = Suc (Suc i + n)\<rparr>"
    using Suc.prems ds by (intro Suc.IH[OF fa]) auto
  then show ?case using ds nt st ys by simp
qed

lemma generatorWithCancellation_plain:
  "(\<forall>j < length ds. \<not> tok (i + j)) \<Longrightarrow> generatorWithCancellation tok i ds = ds"
proof (induction ds arbitrary: i)
  case Nil
  show ?case by simp
next
  case (Cons d ds)
  from Cons.prems have "\<not> tok i" by force
  moreover have "\<forall>j < length ds. \<not> tok (Suc i + j)"
  proof (intro allI impI)
    fix j assume "j < length ds"
    then have "Suc j < length (d # ds)" by simp
    with Cons.prems have "\<not> tok (i + Suc j)" by blast
    then show "\<not> tok (Suc i + j)" by simp
  qed
  ultimately show ?case using Cons.IH[of "Suc i"] by simp
qed

lemma consume_plain:
  "(\<forall>j < length ds. \<not> tok (i + j)) \<Longrightarrow>
   \<exists>k. consume P tok i s acc ds None =
         Inr \<lparr>text_acc = acc @ concat (run_from P s ds), cancelled = False, received = k\<rparr>"
proof (induction ds arbitrary: i s acc)
  case Nil
  show ?case by simp
next
  case (Cons d ds)
  from Cons.prems have nt: "\<not> tok i" by force
  have rest: "\<forall>j < length ds. \<not> tok (Suc i + j)"
  proof (intro allI impI)
    fix j assume "j < length ds"
    then have "Suc j < length (d # ds)" by simp
    with Cons.prems have "\<not> tok (i + Suc j)" by blast
    then show "\<not> tok (Suc i + j)" by simp
  qed
  obtain ys r where st: "st_step P s d = (ys, r)" by (cases "st_step P s d")
  show ?case
  proof (cases r)
    case None
    with nt st show ?thesis by simp
  next
    case (Some s')
    from Cons.IH[OF rest, of s' "acc @ concat ys"] obtain k where
      "consume P tok (Suc i) s' (acc @ concat ys) ds None =
         Inr \<lparr>text_acc = (acc @ concat ys) @ concat (run_from P s' ds), cancelled = False,
              received = k\<rparr>" by blast
    with nt st Some show ?thesis by simp
  qed
qed

subsection \<open>Traces, the cache and the shape of a call\<close>

lemma model_calls_append [simp]: "model_calls (xs @ ys) = model_calls xs @ model_calls ys"
  by (simp add: model_calls_def)

lemma cache_writes_append [simp]: "cache_writes (xs @ ys) = cache_writes xs @ cache_writes ys"
  by (simp add: cache_writes_def)

lemma messages_append [simp]: "messages (xs @ ys) = messages xs @ messages ys"
  by (simp add: messages_def)

lemma quiet_andThen:
  "quiet (fst m) \<Longrightarrow> (\<And>a. quiet (fst (f a))) \<Longrightarrow> quiet (fst (andThen m f))"
proof -
  assume m: "quiet (fst m)" and f: "\<And>a. quiet (fst (f a))"
  obtain es r where mr: "m = (es, r)" by (cases m)
  show ?thesis
  proof (cases r)
    case (Inl e)
    then show ?thesis using m mr by (simp add: andThen_def)
  next
    case (Inr a)
    obtain es' r' where fa: "f a = (es', r')" by (cases "f a")
    from f[of a] fa have "quiet es'" by simp
    then show ?thesis using m mr Inr fa by (simp add: andThen_def quiet_def)
  qed
qed

lemma quiet_silent: "quiet (fst (silent r))"
  by (simp add: silent_def quiet_def model_calls_def cache_writes_def messages_def)

lemma quiet_call:
  "model_calls [ev] = [] \<Longrightarrow> cache_writes [ev] = [] \<Longrightarrow> messages [ev] = [] \<Longrightarrow> quiet (fst (call ev r))"
  by (simp add: call_def quiet_def)

lemma quiet_build_request: "quiet (fst (build_request env document pos options lang))"
  unfolding build_request_def Let_def
  by (intro quiet_andThen quiet_call quiet_silent)
     (auto simp: model_calls_def cache_writes_def messages_def quiet_silent
           intro!: quiet_andThen quiet_call quiet_silent split: option.splits prod.splits)

lemma map_of_filter_key:
  "map_of (filter (\<lambda>e. fst e \<noteq> k) es) k' = (if k' = k then None else map_of es k')"
  by (induction es) auto

lemma cache_get_lookup: "cache_lookup (snd (cache_get c k)) = cache_lookup c"
  by (rule ext) (auto simp: cache_get_def cache_lookup_def map_of_filter_key split: option.splits)

lemma cache_get_fst: "fst (cache_get c k) = cache_lookup c k"
  by (simp add: cache_get_def cache_lookup_def split: option.splits)

lemma cache_put_lookup: "0 < capacity c \<Longrightarrow> cache_lookup (cache_put c k v) k = Some v"
  by (cases "capacity c") (simp_all add: cache_put_def cache_lookup_def)

lemma getTabCompletion_filtered:
  "\<not> passes_filter env document pos \<Longrightarrow> getTabCompletion G env document pos options w = (Resolved None, w)"
  by (simp add: getTabCompletion_def passes_filter_def language_of_def)

lemma getTabCompletion_built:
  "passes_filter env document pos \<Longrightarrow>
   build_request env document pos options (language_of env document) = (es, Inr (Some rq)) \<Longrightarrow>
   getTabCompletion G env document pos options w =
     complete G env (language_of env document) options rq (w\<lparr>trace := trace w @ es\<rparr>)"
  by (simp add: getTabCompletion_def passes_filter_def language_of_def)

lemma complete_hit:
  "cache_lookup (cache w) (rq_prompt rq) = Some (c # cs) \<Longrightarrow>
   complete G env lang options rq (w\<lparr>trace := trace w @ es\<rparr>) =
     (Resolved (Some (outcome env rq (c # cs) True)), probed w es rq)"
  by (simp add: complete_def probed_def cache_get_def cache_lookup_def)

lemma complete_miss:
  "cache_miss w rq \<Longrightarrow>
   complete G env lang options rq (w\<lparr>trace := trace w @ es\<rparr>) =
     generate G env lang options rq (probed w es rq)"
  by (auto simp: complete_def probed_def cache_get_def cache_lookup_def cache_miss_def
           split: option.splits list.splits)

lemma model_calls_simps [simp]:
  "model_calls [] = []"
  "model_calls (ev # es) = (case ev of StreamComplete p co \<Rightarrow> [(p, co)] | _ \<Rightarrow> []) @ model_calls es"
  by (simp_all add: model_calls_def)

lemma prompt_requests_simps [simp]:
  "prompt_requests [] = []"
  "prompt_requests (ev # es) =
     (case ev of ConstructAutocompletePrompt r \<Rightarrow> [r] | _ \<Rightarrow> []) @ prompt_requests es"
  "prompt_requests (xs @ ys) = prompt_requests xs @ prompt_requests ys"
  by (simp_all add: prompt_requests_def)

lemma cache_writes_simps [simp]:
  "cache_writes [] = []"
  "cache_writes (ev # es) = (case ev of CachePut k v \<Rightarrow> [(k, v)] | _ \<Rightarrow> []) @ cache_writes es"
  by (simp_all add: cache_writes_def)

lemma messages_simps [simp]:
  "messages [] = []"
  "messages (ev # es) = (case ev of ShowErrorMessage m \<Rightarrow> [m] | _ \<Rightarrow> []) @ messages es"
  by (simp_all add: messages_def)

lemma on_error_fst:
  "fst (on_error env e w) = (case e of Nullish \<Rightarrow> Rejected | Thrown m \<Rightarrow> Resolved None)"
  by (simp add: on_error_def Let_def split: error.splits)

lemma on_error_cache [simp]: "cache (snd (on_error env e w)) = cache w"
  by (simp add: on_error_def Let_def split: error.splits)

lemma on_error_trace:
  "trace (snd (on_error env e w)) =
     trace w @ ConsoleWarn e #
       (case e of
          Nullish \<Rightarrow> []
        | Thrown m \<Rightarrow>
            if m \<in> errorsShown w then []
            else ShowErrorMessage m #
              (if dialogAnswer env = Some ''Documentation''
               then [OpenExternal ''https://continue.dev/docs/walkthroughs/tab-autocomplete'']
               else []))"
  by (simp add: on_error_def Let_def split: error.splits)

lemma on_error_writes [simp]:
  "cache_writes (trace (snd (on_error env e w))) = cache_writes (trace w)"
  by (simp add: on_error_trace split: error.splits)

lemma on_error_model_calls [simp]:
  "model_calls (trace (snd (on_error env e w))) = model_calls (trace w)"
  by (simp add: on_error_trace split: error.splits)

lemma on_error_prompt_requests [simp]:
  "prompt_requests (trace (snd (on_error env e w))) = prompt_requests (trace w)"
  by (simp add: on_error_trace split: error.splits)

lemma generate_cache [simp]: "cache (snd (generate G env lang options rq w)) = cache w"
  by (simp add: generate_def Let_def split: sum.splits)

lemma generate_writes [simp]:
  "cache_writes (trace (snd (generate G env lang options rq w))) = cache_writes (trace w)"
  by (simp add: generate_def Let_def split: sum.splits)

lemma complete_cache:
  "cache_lookup (cache (snd (complete G env lang options rq w))) = cache_lookup (cache w)"
proof -
  obtain v c' where g: "cache_get (cache w) (rq_prompt rq) = (v, c')"
    by (cases "cache_get (cache w) (rq_prompt rq)")
  with cache_get_lookup[of "cache w" "rq_prompt rq"] have "cache_lookup c' = cache_lookup (cache w)"
    by simp
  with g show ?thesis
    by (simp add: complete_def Let_def split: option.splits list.splits)
qed

lemma complete_writes:
  "cache_writes (trace (snd (complete G env lang options rq w))) = cache_writes (trace w)"
  by (cases "cache_get (cache w) (rq_prompt rq)")
     (simp add: complete_def Let_def split: option.splits list.splits)

lemma getTabCompletion_cache:
  "cache_lookup (cache (snd (getTabCompletion G env document pos options w))) = cache_lookup (cache w)"
proof -
  obtain es r where b: "build_request env document pos options (languageForFilepath env (fileName document)) = (es, r)"
    by (cases "build_request env document pos options (languageForFilepath env (fileName document))")
  show ?thesis using b
    by (auto simp: getTabCompletion_def Let_def complete_cache split: sum.splits option.splits)
qed

lemma getTabCompletion_writes:
  "cache_writes (trace (snd (getTabCompletion G env document pos options w))) = cache_writes (trace w)"
proof -
  obtain es r where b: "build_request env document pos options (languageForFilepath env (fileName document)) = (es, r)"
    by (cases "build_request env document pos options (languageForFilepath env (fileName document))")
  from quiet_build_request[of env document pos options "languageForFilepath env (fileName document)"] b
  have "cache_writes es = []" by (simp add: quiet_def)
  then show ?thesis using b
    by (auto simp: getTabCompletion_def Let_def complete_writes split: sum.splits option.splits)
qed

lemma probed_model_calls: "quiet es \<Longrightarrow> model_calls (trace (probed w es rq)) = model_calls (trace w)"
  by (simp add: probed_def quiet_def)

lemma probed_cache: "cache_lookup (cache (probed w es rq)) = cache_lookup (cache w)"
  by (simp add: probed_def cache_get_lookup)

lemma probed_writes: "quiet es \<Longrightarrow> cache_writes (trace (probed w es rq)) = cache_writes (trace w)"
  by (simp add: probed_def quiet_def)

lemma quiet_built:
  "build_request env document pos options lang = (es, r) \<Longrightarrow> quiet es"
  using quiet_build_request[of env document pos options lang] by simp

lemma generate_absent_cancelled:
  "stream_loop G env lang options rq = Inr r \<Longrightarrow> cancelled r \<Longrightarrow>
   fst (generate G env lang options rq w) = Resolved None"
  by (simp add: generate_def Let_def)

lemma generate_absent_blank:
  "stream_loop G env lang options rq = Inr r \<Longrightarrow> trim (text_acc r) = [] \<Longrightarrow>
   fst (generate G env lang options rq w) = Resolved None"
  by (simp add: generate_def Let_def)

lemma getTabCompletion_miss:
  "passes_filter env document pos \<Longrightarrow>
   build_request env document pos options (language_of env document) = (es, Inr (Some rq)) \<Longrightarrow>
   cache_miss w rq \<Longrightarrow>
   getTabCompletion G env document pos options w =
     generate G env (language_of env document) options rq (probed w es rq)"
  by (simp add: getTabCompletion_built complete_miss)

lemma stream_loop_text:
  assumes "stream_loop G env lang options rq = Inr r"
  shows "text_acc r =
     concat (run (finalGenerator G lang (rq_lineBelowCursor rq))
       (generatorWithCancellation (isCancellationRequested env) 0
          (updates (generator env lang options rq))))"
  using consume_text[OF assms[unfolded stream_loop_def Let_def]] by (simp add: run_def)

lemma on_error_no_outcome: "on_error env e w \<noteq> (Resolved (Some out), w')"
proof
  assume "on_error env e w = (Resolved (Some out), w')"
  then have "fst (on_error env e w) = Resolved (Some out)" by simp
  then show False by (simp add: on_error_fst split: error.splits)
qed

lemma generate_served:
  "generate G env lang options rq w = (Resolved (Some out), w') \<Longrightarrow>
   \<exists>r. stream_loop G env lang options rq = Inr r \<and> \<not> cancelled r \<and> trim (text_acc r) \<noteq> []
       \<and> out = outcome env rq (trimEnd (text_acc r)) False"
  by (auto simp: generate_def Let_def on_error_no_outcome split: sum.splits if_splits)

lemma generate_model_calls:
  "model_calls (trace (snd (generate G env lang options rq w))) =
     model_calls (trace w) @
       (if starts_model (generator env lang options rq)
        then [(rq_prompt rq, request_options lang options rq)] else [])"
  by (simp add: generate_def Let_def split: sum.splits)

lemma on_error_messages:
  "messages (trace (snd (on_error env e w))) =
     messages (trace w) @
       (case e of Nullish \<Rightarrow> [] | Thrown m \<Rightarrow> if m \<in> errorsShown w then [] else [m])"
  by (simp add: on_error_trace split: error.splits)

lemma on_error_errorsShown:
  "errorsShown (snd (on_error env e w)) =
     errorsShown w \<union> (case e of Nullish \<Rightarrow> {} | Thrown m \<Rightarrow> {m})"
  by (auto simp: on_error_def Let_def split: error.splits)

lemma generate_messages:
  "messages (trace (snd (generate G env lang options rq w))) =
     messages (trace w) @
       (case stream_loop G env lang options rq of
          Inl (Thrown m) \<Rightarrow> if m \<in> errorsShown w then [] else [m]
        | _ \<Rightarrow> [])"
  by (simp add: generate_def Let_def on_error_messages split: sum.splits error.splits)

lemma generate_errorsShown:
  "errorsShown (snd (generate G env lang options rq w)) =
     errorsShown w \<union> (case stream_loop G env lang options rq of Inl (Thrown m) \<Rightarrow> {m} | _ \<Rightarrow> {})"
  by (simp add: generate_def Let_def on_error_errorsShown split: sum.splits error.splits)

lemma generate_raised:
  "stream_loop G env lang options rq = Inl e \<Longrightarrow>
   fst (generate G env lang options rq w) =
     (case e of Nullish \<Rightarrow> Rejected | Thrown m \<Rightarrow> Resolved None)"
  by (simp add: generate_def Let_def on_error_fst)

lemma probed_messages: "quiet es \<Longrightarrow> messages (trace (probed w es rq)) = messages (trace w)"
  by (simp add: probed_def quiet_def)

lemma probed_errorsShown: "errorsShown (probed w es rq) = errorsShown w"
  by (simp add: probed_def)

lemma cache_miss_cases:
  "cache_miss w rq \<or> (\<exists>c cs. cache_lookup (cache w) (rq_prompt rq) = Some (c # cs))"
  by (auto simp: cache_miss_def split: option.splits list.splits) (metis neq_Nil_conv)

lemma trimEnd_nonempty: "trim s \<noteq> [] \<Longrightarrow> trimEnd s \<noteq> []"
  by (auto simp: trim_def)

lemma served_shape:
  assumes "getTabCompletion G env document pos options w = (Resolved (Some out), w')"
  shows "passes_filter env document pos
       \<and> (\<exists>es rq. build_request env document pos options (language_of env document)
                     = (es, Inr (Some rq)))"
proof -
  have p: "passes_filter env document pos"
    using assms getTabCompletion_filtered[of env document pos G options w] by auto
  obtain es r where b: "build_request env document pos options (language_of env document) = (es, r)"
    by (cases "build_request env document pos options (language_of env document)")
  from assms p b have "\<exists>rq. r = Inr (Some rq)"
    by (auto simp: getTabCompletion_def passes_filter_def language_of_def on_error_no_outcome
             split: sum.splits option.splits)
  with p b show ?thesis by blast
qed

subsection \<open>The sample call\<close>

lemmas sample_defs =
  sample_env_def sample_document_def sample_position_def sample_options_def sample_llm_def
  sample_template_options_def sample_world_def sample_request_def sample_events_def
  sample_events_with_def sample_prompt_request_def
  sample_transforms_def relay_def stop_when_equal_def

lemmas run_defs =
  build_request_def andThen_def call_def silent_def extrasSnippets_def chooseTemplate_def
  language_of_def passes_filter_def filtered_def endsWith_def suffix_def MAX_SAFE_INTEGER_def
  Let_def

lemmas loop_defs =
  stream_loop_def generator_def request_options_def model_options_def stop_sequences_def
  finalGenerator_def pipe_sel

lemma sample_passes: "passes_filter sample_env sample_document sample_position"
  by (simp add: sample_defs run_defs)

lemma sample_built:
  "build_request sample_env sample_document sample_position sample_options
     (language_of sample_env sample_document) = (sample_events, Inr (Some sample_request))"
  by (simp add: sample_defs run_defs)

lemma sample_miss: "cache_miss sample_world sample_request"
  by (simp add: cache_miss_def cache_lookup_def sample_world_def)

lemma sample_loop:
  "stream_loop sample_transforms sample_env (language_of sample_env sample_document)
     sample_options sample_request = Inr \<lparr>text_acc = ''42;  '', cancelled = False, received = 2\<rparr>"
  by (simp add: sample_defs loop_defs language_of_def Let_def)

lemma sample_call:
  "getTabCompletion sample_transforms sample_env sample_document sample_position sample_options
     sample_world =
   (Resolved (Some (outcome sample_env sample_request ''42;'' False)), sample_world_after)"
  using sample_loop
  by (simp add: getTabCompletion_miss[OF sample_passes sample_built sample_miss] generate_def
      probed_def cache_get_def trim_def trimEnd_def js_space_def Let_def)
     (simp add: sample_defs sample_world_after_def generator_def request_options_def
        model_options_def stop_sequences_def language_of_def)

subsection \<open>The end-of-line filter\<close>

text \<open>
  Claim C4. When the line of the cursor ends with one of the end-of-line markers of the
  language and the cursor column is at or past the end of that line,
  \<open>getTabCompletion\<close> returns absent at once: the world it returns is the world it was
  given, so the model handle has not been asked for (no \<open>GetModel\<close> in the trace), the
  cache has not been read and no model call has been made.
\<close>

theorem filter_returns_absent:
  assumes "marker \<in> set (endOfLine (language_of env document))"
    and "endsWith (lineAtPosition document pos) marker"
    and "int (length (lineAtPosition document pos)) \<le> character pos"
  shows "getTabCompletion G env document pos options w = (Resolved None, w)"
proof -
  from assms have "\<not> passes_filter env document pos"
    by (auto simp: passes_filter_def filtered_def list_ex_iff)
  then show ?thesis by (rule getTabCompletion_filtered)
qed

theorem filter_returns_absent_witness:
  "'';'' \<in> set (endOfLine (language_of sample_env sample_document))
   \<and> endsWith (lineAtPosition sample_document \<lparr>line = 1, character = 4\<rparr>) '';''
   \<and> int (length (lineAtPosition sample_document \<lparr>line = 1, character = 4\<rparr>)) \<le> character \<lparr>line = 1, character = 4\<rparr>
   \<and> getTabCompletion sample_transforms sample_env sample_document \<lparr>line = 1, character = 4\<rparr>
        sample_options sample_world = (Resolved None, sample_world)"
  using filter_returns_absent[of "'';''" sample_env sample_document "\<lparr>line = 1, character = 4\<rparr>"
          sample_transforms sample_options sample_world]
  by (simp add: language_of_def sample_env_def sample_document_def endsWith_def suffix_def)

subsection \<open>The cache hit\<close>

text \<open>
  Claim C10. Take a call that passes the filter and builds its request. If the cache
  holds a non-empty string under the rendered prompt, the call returns an outcome with
  \<open>cacheHit\<close> set whose completion is that string, character for character (it is
  neither trimmed nor tested for being blank), and the trace gains no model call. If the
  cache holds the empty string under the prompt, the call takes the branch of the cache
  miss.
\<close>

theorem cache_hit_served_verbatim:
  assumes "passes_filter env document pos"
    and "build_request env document pos options (language_of env document) = (es, Inr (Some rq))"
  shows "(\<forall>c cs. cache_lookup (cache w) (rq_prompt rq) = Some (c # cs) \<longrightarrow>
            (\<exists>out w'. getTabCompletion G env document pos options w = (Resolved (Some out), w')
               \<and> cacheHit out \<and> completion out = c # cs
               \<and> model_calls (trace w') = model_calls (trace w)))
       \<and> (cache_lookup (cache w) (rq_prompt rq) = Some [] \<longrightarrow>
            getTabCompletion G env document pos options w =
              generate G env (language_of env document) options rq (probed w es rq))"
proof (intro conjI allI impI)
  fix c cs
  assume hit: "cache_lookup (cache w) (rq_prompt rq) = Some (c # cs)"
  have "getTabCompletion G env document pos options w =
          (Resolved (Some (outcome env rq (c # cs) True)), probed w es rq)"
    using assms hit by (simp add: getTabCompletion_built complete_hit)
  moreover have "model_calls (trace (probed w es rq)) = model_calls (trace w)"
    using assms(2) by (intro probed_model_calls quiet_built)
  ultimately show "\<exists>out w'. getTabCompletion G env document pos options w = (Resolved (Some out), w')
      \<and> cacheHit out \<and> completion out = c # cs \<and> model_calls (trace w') = model_calls (trace w)"
    by (simp add: outcome_def)
next
  assume "cache_lookup (cache w) (rq_prompt rq) = Some []"
  then have "cache_miss w rq" by (simp add: cache_miss_def)
  then show "getTabCompletion G env document pos options w =
      generate G env (language_of env document) options rq (probed w es rq)"
    using assms by (simp add: getTabCompletion_built complete_miss)
qed

theorem cache_hit_served_verbatim_witness:
  "passes_filter sample_env sample_document sample_position
   \<and> build_request sample_env sample_document sample_position sample_options
       (language_of sample_env sample_document) = (sample_events, Inr (Some sample_request))
   \<and> cache_lookup (cache (world_holding ''42;  '')) (rq_prompt sample_request) = Some ''42;  ''
   \<and> (\<exists>out w'. getTabCompletion sample_transforms sample_env sample_document sample_position
                   sample_options (world_holding ''42;  '') = (Resolved (Some out), w')
          \<and> cacheHit out \<and> completion out = ''42;  ''
          \<and> model_calls (trace w') = model_calls (trace (world_holding ''42;  '')))
   \<and> cache_lookup (cache (world_holding [])) (rq_prompt sample_request) = Some []
   \<and> getTabCompletion sample_transforms sample_env sample_document sample_position
        sample_options (world_holding []) =
      generate sample_transforms sample_env (language_of sample_env sample_document)
        sample_options sample_request (probed (world_holding []) sample_events sample_request)"
proof -
  have l1: "cache_lookup (cache (world_holding ''42;  '')) (rq_prompt sample_request) = Some ''42;  ''"
    by (simp add: world_holding_def cache_lookup_def sample_request_def)
  have l2: "cache_lookup (cache (world_holding [])) (rq_prompt sample_request) = Some []"
    by (simp add: world_holding_def cache_lookup_def sample_request_def)
  show ?thesis
    using cache_hit_served_verbatim[OF sample_passes sample_built, of "world_holding ''42;  ''" sample_transforms]
      cache_hit_served_verbatim[OF sample_passes sample_built, of "world_holding []" sample_transforms]
      l1 l2 sample_passes sample_built
    by blast
qed

subsection \<open>The stop sequences\<close>

text \<open>
  Claim C2, as amended. The stop list handed to the model call is the stop list of the
  template's completion options (none when there are none), then the two separators
  \<open>\n\n\<close> and three backquotes, then the stop words of the language; a single newline is
  put in front of it exactly when \<open>multilineCompletions\<close> is not \<open>always\<close> and, besides,
  either it is \<open>never\<close> or the prompt builder has not chosen a multi-line completion.
\<close>

theorem stop_sequence_list:
  "stop (request_options lang options rq) =
     Some ((if multilineCompletions options \<noteq> ''always''
               \<and> (multilineCompletions options = ''never'' \<or> \<not> rq_completeMultiline rq)
            then [[CHR 0x0A]] else [])
           @ (case rq_completionOptions rq of
                None \<Rightarrow> []
              | Some co \<Rightarrow> (case stop co of None \<Rightarrow> [] | Some xs \<Rightarrow> xs))
           @ [[CHR 0x0A, CHR 0x0A], ''```''] @ stopWords lang)"
  by (simp add: request_options_def model_options_def stop_sequences_def Let_def)

text \<open>
  The claim as first stated has the newline in front whenever \<open>multilineCompletions\<close> is
  not \<open>always\<close>. The sample call runs with \<open>auto\<close> and a prompt builder that chooses a
  multi-line completion: its one model call has no newline in front of its stop list.
\<close>

theorem stop_sequence_list_counterexample:
  "multilineCompletions sample_options \<noteq> ''always''
   \<and> map (\<lambda>c. stop (snd c))
        (model_calls (trace (snd (getTabCompletion sample_transforms sample_env sample_document
           sample_position sample_options sample_world))))
     = [Some [''<EOT>'', [CHR 0x0A, CHR 0x0A], ''```'', ''function'']]"
  by (simp add: sample_call)
     (simp add: sample_world_after_def sample_defs)

subsection \<open>The model call\<close>

text \<open>
  Claim C9, as amended. Take a call that misses the cache. It hands
  \<open>GeneratorReuseManager.getGenerator\<close> a start function that calls \<open>streamComplete\<close> with
  the rendered prompt and with the completion options of the template overwritten in
  three fields: temperature 0, raw mode on, and the computed stop list; the other fields
  are the template's. The model is called once, with exactly that, when the reuse manager
  starts a new generator, and not at all when it hands back a pending one.
\<close>

theorem model_call_options:
  assumes "passes_filter env document pos"
    and "build_request env document pos options (language_of env document) = (es, Inr (Some rq))"
    and "cache_miss w rq"
  shows "model_calls (trace (snd (getTabCompletion G env document pos options w))) =
           model_calls (trace w) @
             (if starts_model (generator env (language_of env document) options rq)
              then [(rq_prompt rq, request_options (language_of env document) options rq)]
              else [])
       \<and> temperature (request_options (language_of env document) options rq) = Some 0
       \<and> raw (request_options (language_of env document) options rq) = Some True
       \<and> stop (request_options (language_of env document) options rq) =
           Some (stop_sequences (rq_completionOptions rq) (language_of env document) options
                   (rq_completeMultiline rq))
       \<and> others (request_options (language_of env document) options rq) =
           others (case rq_completionOptions rq of None \<Rightarrow> no_options | Some co \<Rightarrow> co)"
proof -
  have "model_calls (trace (probed w es rq)) = model_calls (trace w)"
    using assms(2) by (intro probed_model_calls quiet_built)
  then show ?thesis using assms
    by (simp add: getTabCompletion_miss generate_model_calls request_options_def model_options_def)
qed

theorem model_call_options_witness:
  "passes_filter sample_env sample_document sample_position
   \<and> build_request sample_env sample_document sample_position sample_options
       (language_of sample_env sample_document) = (sample_events, Inr (Some sample_request))
   \<and> cache_miss sample_world sample_request
   \<and> model_calls (trace (snd (getTabCompletion sample_transforms sample_env sample_document
        sample_position sample_options sample_world))) =
       [(''let x = |f();'',
         \<lparr>stop = Some [''<EOT>'', [CHR 0x0A, CHR 0x0A], ''```'', ''function''],
          temperature = Some 0, raw = Some True, others = [(''maxTokens'', ''100'')]\<rparr>)]"
  using model_call_options[OF sample_passes sample_built sample_miss, of sample_transforms]
    sample_passes sample_built sample_miss
  by (simp add: sample_defs generator_def request_options_def model_options_def
      stop_sequences_def language_of_def)

text \<open>
  The claim as first stated has the model called on every cache miss. When the reuse
  manager hands back a pending generator, the call misses the cache, serves a completion
  and calls no model.
\<close>

lemma reusing_passes: "passes_filter sample_env_reusing sample_document sample_position"
  by (simp add: sample_env_reusing_def sample_defs run_defs)

lemma reusing_built:
  "build_request sample_env_reusing sample_document sample_position sample_options
     (language_of sample_env_reusing sample_document) = (sample_events, Inr (Some sample_request))"
  by (simp add: sample_env_reusing_def sample_defs run_defs)

lemma reusing_loop:
  "stream_loop sample_transforms sample_env_reusing
     (language_of sample_env_reusing sample_document) sample_options sample_request
   = Inr \<lparr>text_acc = ''7;'', cancelled = False, received = 1\<rparr>"
  by (simp add: sample_env_reusing_def sample_defs loop_defs language_of_def Let_def)

theorem model_call_options_counterexample:
  "cache_miss sample_world sample_request
   \<and> fst (getTabCompletion sample_transforms sample_env_reusing sample_document sample_position
        sample_options sample_world) = Resolved (Some (outcome sample_env_reusing sample_request ''7;'' False))
   \<and> model_calls (trace (snd (getTabCompletion sample_transforms sample_env_reusing
        sample_document sample_position sample_options sample_world))) = []"
  using reusing_loop sample_miss
  by (simp add: getTabCompletion_miss[OF reusing_passes reusing_built sample_miss]
      generate_def trim_def trimEnd_def js_space_def Let_def probed_def sample_events_def)
     (simp add: sample_env_reusing_def sample_defs generator_def)

subsection \<open>The order of the stream transforms\<close>

lemma shaped_finalGenerator:
  "concat (run (finalGenerator G lang l) ds) = shaped G lang l ds"
  by (simp add: shaped_def run_finalGenerator)

lemma generate_result:
  "stream_loop G env lang options rq = Inr r \<Longrightarrow>
   fst (generate G env lang options rq w) =
     Resolved (if cancelled r \<or> trim (text_acc r) = [] then None
               else Some (outcome env rq (trimEnd (text_acc r)) False))"
  by (simp add: generate_def Let_def)

lemma stream_loop_plain:
  assumes "failure (generator env lang options rq) = None"
    and "\<forall>i < length (updates (generator env lang options rq)). \<not> isCancellationRequested env i"
  shows "\<exists>k. stream_loop G env lang options rq =
           Inr \<lparr>text_acc = shaped G lang (rq_lineBelowCursor rq)
                             (updates (generator env lang options rq)),
                cancelled = False, received = k\<rparr>"
  using consume_plain[of "updates (generator env lang options rq)" "isCancellationRequested env" 0
          "finalGenerator G lang (rq_lineBelowCursor rq)"
          "st_init (finalGenerator G lang (rq_lineBelowCursor rq))" "[]"] assms
  by (simp add: stream_loop_def Let_def run_def[symmetric] shaped_finalGenerator)

text \<open>
  Claim C8. Take a call that misses the cache. The three transforms are applied to the
  updates that \<open>generatorWithCancellation\<close> lets through, in the order whitespace
  suppression, reassembly into lines (\<open>streamLines\<close>, then \<open>streamWithNewLines\<close>),
  similar-line stopper against the line below the cursor; \<open>shaped\<close> is that composition
  with the chunks of the last stage joined in order. Whenever the loop over the final
  generator ends without an exception, the text it has accumulated is \<open>shaped\<close> of those
  updates, and the call returns absent if cancellation was observed or that text is
  blank, and otherwise the outcome whose completion is that text without its trailing
  white space. In particular, when the stream ends without an exception and no update
  is received with the token tripped, the call returns the outcome made of \<open>shaped\<close> of
  all the updates of the generator, or absent when that is blank.
\<close>

theorem transforms_in_order:
  assumes "passes_filter env document pos"
    and "build_request env document pos options (language_of env document) = (es, Inr (Some rq))"
    and "cache_miss w rq"
  shows "(\<forall>r. stream_loop G env (language_of env document) options rq = Inr r \<longrightarrow>
            text_acc r =
              shaped G (language_of env document) (rq_lineBelowCursor rq)
                (generatorWithCancellation (isCancellationRequested env) 0
                   (updates (generator env (language_of env document) options rq)))
            \<and> fst (getTabCompletion G env document pos options w) =
                Resolved
                  (if cancelled r \<or>
                      trim (shaped G (language_of env document) (rq_lineBelowCursor rq)
                        (generatorWithCancellation (isCancellationRequested env) 0
                           (updates (generator env (language_of env document) options rq)))) = []
                   then None
                   else Some (outcome env rq
                     (trimEnd (shaped G (language_of env document) (rq_lineBelowCursor rq)
                        (generatorWithCancellation (isCancellationRequested env) 0
                           (updates (generator env (language_of env document) options rq)))))
                     False)))
       \<and> (failure (generator env (language_of env document) options rq) = None
            \<and> (\<forall>i < length (updates (generator env (language_of env document) options rq)).
                   \<not> isCancellationRequested env i) \<longrightarrow>
            fst (getTabCompletion G env document pos options w) =
              Resolved
                (if trim (shaped G (language_of env document) (rq_lineBelowCursor rq)
                      (updates (generator env (language_of env document) options rq))) = []
                 then None
                 else Some (outcome env rq
                   (trimEnd (shaped G (language_of env document) (rq_lineBelowCursor rq)
                      (updates (generator env (language_of env document) options rq))))
                   False)))"
proof (intro conjI allI impI)
  fix r :: loop_end
  assume r: "stream_loop G env (language_of env document) options rq = Inr r"
  from stream_loop_text[OF r]
  show t: "text_acc r =
      shaped G (language_of env document) (rq_lineBelowCursor rq)
        (generatorWithCancellation (isCancellationRequested env) 0
           (updates (generator env (language_of env document) options rq)))"
    by (simp add: shaped_finalGenerator)
  from assms generate_result[OF r, of "probed w es rq"]
  show "fst (getTabCompletion G env document pos options w) =
      Resolved
        (if cancelled r \<or>
            trim (shaped G (language_of env document) (rq_lineBelowCursor rq)
              (generatorWithCancellation (isCancellationRequested env) 0
                 (updates (generator env (language_of env document) options rq)))) = []
         then None
         else Some (outcome env rq
           (trimEnd (shaped G (language_of env document) (rq_lineBelowCursor rq)
              (generatorWithCancellation (isCancellationRequested env) 0
                 (updates (generator env (language_of env document) options rq)))))
           False))"
    by (simp only: getTabCompletion_miss t[symmetric])
next
  assume a: "failure (generator env (language_of env document) options rq) = None
      \<and> (\<forall>i < length (updates (generator env (language_of env document) options rq)).
             \<not> isCancellationRequested env i)"
  then obtain k where r: "stream_loop G env (language_of env document) options rq =
      Inr \<lparr>text_acc = shaped G (language_of env document) (rq_lineBelowCursor rq)
                        (updates (generator env (language_of env document) options rq)),
           cancelled = False, received = k\<rparr>"
    using stream_loop_plain[of env "language_of env document" options rq G] by blast
  from assms generate_result[OF r, of "probed w es rq"]
  show "fst (getTabCompletion G env document pos options w) =
      Resolved
        (if trim (shaped G (language_of env document) (rq_lineBelowCursor rq)
              (updates (generator env (language_of env document) options rq))) = []
         then None
         else Some (outcome env rq
           (trimEnd (shaped G (language_of env document) (rq_lineBelowCursor rq)
              (updates (generator env (language_of env document) options rq))))
           False))"
    by (simp add: getTabCompletion_miss)
qed

lemmas line_defs =
  line_transforms_def blank_dropper_def line_splitter_def newline_joiner_def
  stop_when_equal_def js_space_def endsWith_def suffix_to_prefix

lemma lines_passes: "passes_filter sample_env_lines sample_document sample_position"
  by (simp add: sample_env_lines_def sample_defs run_defs)

lemma lines_built:
  "build_request sample_env_lines sample_document sample_position sample_options
     (language_of sample_env_lines sample_document) = (sample_events, Inr (Some sample_request))"
  by (simp add: sample_env_lines_def sample_defs run_defs)

lemma lines_updates:
  "updates (generator sample_env_lines (language_of sample_env_lines sample_document)
      sample_options sample_request)
   = [''1;'', ''  '', CHR 0x0A # ''f('', '');'' @ CHR 0x0A # ''g();'']"
  "failure (generator sample_env_lines (language_of sample_env_lines sample_document)
      sample_options sample_request) = None"
  by (simp_all add: sample_env_lines_def sample_env_def generator_def)

lemma lines_shaped:
  "shaped line_transforms (language_of sample_env_lines sample_document)
     (rq_lineBelowCursor sample_request)
     [''1;'', ''  '', CHR 0x0A # ''f('', '');'' @ CHR 0x0A # ''g();'']
   = ''1;'' @ [CHR 0x0A]"
  by (simp add: shaped_def run_def line_defs language_of_def sample_env_lines_def sample_env_def
      sample_request_def)

theorem transforms_in_order_witness:
  "passes_filter sample_env_lines sample_document sample_position
   \<and> build_request sample_env_lines sample_document sample_position sample_options
       (language_of sample_env_lines sample_document) = (sample_events, Inr (Some sample_request))
   \<and> cache_miss sample_world sample_request
   \<and> failure (generator sample_env_lines (language_of sample_env_lines sample_document)
        sample_options sample_request) = None
   \<and> \<not> isCancellationRequested sample_env_lines 0
   \<and> \<not> isCancellationRequested sample_env_lines 3
   \<and> shaped line_transforms (language_of sample_env_lines sample_document)
        (rq_lineBelowCursor sample_request)
        (updates (generator sample_env_lines (language_of sample_env_lines sample_document)
           sample_options sample_request)) = ''1;'' @ [CHR 0x0A]
   \<and> fst (getTabCompletion line_transforms sample_env_lines sample_document sample_position
        sample_options sample_world)
       = Resolved (Some (outcome sample_env_lines sample_request ''1;'' False))"
proof -
  have quiet_token: "\<forall>i < length (updates (generator sample_env_lines
      (language_of sample_env_lines sample_document) sample_options sample_request)).
      \<not> isCancellationRequested sample_env_lines i"
    by (simp add: sample_env_lines_def sample_env_def)
  have t: "trim (''1;'' @ [CHR 0x0A]) \<noteq> []" "trimEnd (''1;'' @ [CHR 0x0A]) = ''1;''"
    by (simp_all add: trim_def trimEnd_def js_space_def)
  show ?thesis
    using transforms_in_order[OF lines_passes lines_built sample_miss, of line_transforms]
      lines_passes lines_built sample_miss lines_updates lines_shaped quiet_token t
    by simp
qed

subsection \<open>Cancellation\<close>

text \<open>
  Claim C3, as amended. The token is read when an update is received, and at no other
  moment. Take a call that misses the cache, and let update \<open>n\<close> of the generator be the
  first on whose receipt the token reads as cancelled, the chain of transforms still
  pulling at that point (the first \<open>n\<close> updates have gone through it and left it in
  state \<open>s\<close>, having yielded \<open>ys\<close>). Then the loop has received \<open>n + 1\<close> updates and no
  more, the text it leaves is made of what the first \<open>n\<close> updates yielded and of what the
  transforms yield on seeing their input end, the call returns absent, the cache holds
  what it held before and the trace gains no cache write.
\<close>

theorem cancellation_absent_uncached:
  assumes "passes_filter env document pos"
    and "build_request env document pos options (language_of env document) = (es, Inr (Some rq))"
    and "cache_miss w rq"
    and "n < length (updates (generator env (language_of env document) options rq))"
    and "isCancellationRequested env n"
    and "\<forall>j<n. \<not> isCancellationRequested env j"
    and "feed_all (finalGenerator G (language_of env document) (rq_lineBelowCursor rq))
           (st_init (finalGenerator G (language_of env document) (rq_lineBelowCursor rq)))
           (take n (updates (generator env (language_of env document) options rq)))
         = (ys, Some s)"
  shows "stream_loop G env (language_of env document) options rq =
           Inr \<lparr>text_acc = concat ys @ concat (st_flush
                   (finalGenerator G (language_of env document) (rq_lineBelowCursor rq)) s),
                cancelled = True, received = Suc n\<rparr>
       \<and> fst (getTabCompletion G env document pos options w) = Resolved None
       \<and> cache_lookup (cache (snd (getTabCompletion G env document pos options w)))
           = cache_lookup (cache w)
       \<and> cache_writes (trace (snd (getTabCompletion G env document pos options w)))
           = cache_writes (trace w)"
proof -
  let ?lang = "language_of env document"
  let ?P = "finalGenerator G ?lang (rq_lineBelowCursor rq)"
  let ?g = "generator env ?lang options rq"
  have loop: "stream_loop G env ?lang options rq =
      Inr \<lparr>text_acc = concat ys @ concat (st_flush ?P s), cancelled = True, received = Suc n\<rparr>"
    using consume_cancelled[of ?P "st_init ?P" n "updates ?g" ys s "isCancellationRequested env" 0
            "[]" "failure ?g"] assms(4-7)
    by (simp add: stream_loop_def Let_def)
  have "fst (getTabCompletion G env document pos options w) = Resolved None"
    using assms(1-3) loop by (simp add: getTabCompletion_miss generate_absent_cancelled)
  then show ?thesis using loop
    by (simp add: getTabCompletion_cache getTabCompletion_writes)
qed

lemma cancelling_passes: "passes_filter sample_env_cancelling sample_document sample_position"
  by (simp add: sample_env_cancelling_def sample_defs run_defs)

lemma cancelling_built:
  "build_request sample_env_cancelling sample_document sample_position sample_options
     (language_of sample_env_cancelling sample_document) = (sample_events, Inr (Some sample_request))"
  by (simp add: sample_env_cancelling_def sample_defs run_defs)

lemma cancelling_fed:
  "feed_all (finalGenerator sample_transforms (language_of sample_env_cancelling sample_document)
               (rq_lineBelowCursor sample_request))
     (st_init (finalGenerator sample_transforms (language_of sample_env_cancelling sample_document)
               (rq_lineBelowCursor sample_request)))
     (take 1 (updates (generator sample_env_cancelling (language_of sample_env_cancelling sample_document)
               sample_options sample_request)))
   = ([''4''], Some ((((), ()), ()), ()))"
  by (simp add: sample_env_cancelling_def sample_defs loop_defs language_of_def Let_def)

theorem cancellation_absent_uncached_witness:
  "passes_filter sample_env_cancelling sample_document sample_position
   \<and> build_request sample_env_cancelling sample_document sample_position sample_options
       (language_of sample_env_cancelling sample_document) = (sample_events, Inr (Some sample_request))
   \<and> cache_miss sample_world sample_request
   \<and> 1 < length (updates (generator sample_env_cancelling
            (language_of sample_env_cancelling sample_document) sample_options sample_request))
   \<and> isCancellationRequested sample_env_cancelling 1
   \<and> \<not> isCancellationRequested sample_env_cancelling 0
   \<and> stream_loop sample_transforms sample_env_cancelling
        (language_of sample_env_cancelling sample_document) sample_options sample_request
      = Inr \<lparr>text_acc = ''4'', cancelled = True, received = 2\<rparr>
   \<and> fst (getTabCompletion sample_transforms sample_env_cancelling sample_document sample_position
            sample_options sample_world) = Resolved None
   \<and> cache_lookup (cache (snd (getTabCompletion sample_transforms sample_env_cancelling
            sample_document sample_position sample_options sample_world)))
       = cache_lookup (cache sample_world)
   \<and> cache_writes (trace (snd (getTabCompletion sample_transforms sample_env_cancelling
            sample_document sample_position sample_options sample_world)))
       = cache_writes (trace sample_world)"
proof -
  have a: "1 < length (updates (generator sample_env_cancelling
            (language_of sample_env_cancelling sample_document) sample_options sample_request))"
    by (simp add: sample_env_cancelling_def sample_defs generator_def)
  have b: "isCancellationRequested sample_env_cancelling 1"
    by (simp add: sample_env_cancelling_def sample_defs)
  have c: "\<forall>j<1. \<not> isCancellationRequested sample_env_cancelling j"
    by (simp add: sample_env_cancelling_def sample_defs)
  have d: "st_flush (finalGenerator sample_transforms (language_of sample_env_cancelling sample_document)
               (rq_lineBelowCursor sample_request)) ((((), ()), ()), ()) = []"
    by (simp add: sample_defs loop_defs)
  show ?thesis
    using cancellation_absent_uncached[OF cancelling_passes cancelling_built sample_miss a b c cancelling_fed]
      cancelling_passes cancelling_built sample_miss a b c d
    by simp
qed

text \<open>
  The claim as first stated has every call absent in which the token is tripped while
  the stream is being consumed. A token tripped after the last update has been
  received, while the loop waits for the stream to end, is not read again: the sample
  call, its token tripped after its second and last update, returns its completion.
\<close>

lemma late_trip_passes: "passes_filter sample_env_late_trip sample_document sample_position"
  by (simp add: sample_env_late_trip_def sample_defs run_defs)

lemma late_trip_built:
  "build_request sample_env_late_trip sample_document sample_position sample_options
     (language_of sample_env_late_trip sample_document) = (sample_events, Inr (Some sample_request))"
  by (simp add: sample_env_late_trip_def sample_defs run_defs)

lemma late_trip_loop:
  "stream_loop sample_transforms sample_env_late_trip
     (language_of sample_env_late_trip sample_document) sample_options sample_request
   = Inr \<lparr>text_acc = ''42;  '', cancelled = False, received = 2\<rparr>"
  by (simp add: sample_env_late_trip_def sample_defs loop_defs language_of_def Let_def)

theorem cancellation_absent_uncached_counterexample:
  "length (updates (generator sample_env_late_trip
      (language_of sample_env_late_trip sample_document) sample_options sample_request)) = 2
   \<and> \<not> isCancellationRequested sample_env_late_trip 0
   \<and> \<not> isCancellationRequested sample_env_late_trip 1
   \<and> isCancellationRequested sample_env_late_trip 2
   \<and> fst (getTabCompletion sample_transforms sample_env_late_trip sample_document
        sample_position sample_options sample_world)
       = Resolved (Some (outcome sample_env_late_trip sample_request ''42;'' False))"
  using late_trip_loop
  by (simp add: getTabCompletion_miss[OF late_trip_passes late_trip_built sample_miss]
      generate_def trim_def trimEnd_def js_space_def Let_def)
     (simp add: sample_env_late_trip_def sample_env_def generator_def)

subsection \<open>Blank completions\<close>

text \<open>
  Claim C5. Take a call that misses the cache and whose loop over the final generator
  ends without an exception. If the accumulated text trims to the empty string, the call
  returns absent, the cache holds after the call exactly what it held before, and the
  trace gains no cache write.
\<close>

theorem blank_completion_absent_uncached:
  assumes "passes_filter env document pos"
    and "build_request env document pos options (language_of env document) = (es, Inr (Some rq))"
    and "cache_miss w rq"
    and "stream_loop G env (language_of env document) options rq = Inr r"
    and "trim (text_acc r) = []"
  shows "fst (getTabCompletion G env document pos options w) = Resolved None
       \<and> cache_lookup (cache (snd (getTabCompletion G env document pos options w)))
           = cache_lookup (cache w)
       \<and> cache_writes (trace (snd (getTabCompletion G env document pos options w)))
           = cache_writes (trace w)"
proof -
  have "fst (getTabCompletion G env document pos options w) = Resolved None"
    using assms by (simp add: getTabCompletion_miss generate_absent_blank)
  then show ?thesis
    by (simp add: getTabCompletion_cache getTabCompletion_writes)
qed

lemma blank_passes: "passes_filter sample_env_blank sample_document sample_position"
  by (simp add: sample_env_blank_def sample_defs run_defs)

lemma blank_built:
  "build_request sample_env_blank sample_document sample_position sample_options
     (language_of sample_env_blank sample_document) = (sample_events, Inr (Some sample_request))"
  by (simp add: sample_env_blank_def sample_defs run_defs)

lemma blank_loop:
  "stream_loop sample_transforms sample_env_blank (language_of sample_env_blank sample_document)
     sample_options sample_request = Inr \<lparr>text_acc = ''   '', cancelled = False, received = 2\<rparr>"
  by (simp add: sample_env_blank_def sample_defs loop_defs language_of_def Let_def)

lemma blank_trim: "trim (text_acc \<lparr>text_acc = ''   '', cancelled = False, received = 2\<rparr>) = []"
  by (simp add: trim_def trimEnd_def js_space_def)

theorem blank_completion_absent_uncached_witness:
  "passes_filter sample_env_blank sample_document sample_position
   \<and> build_request sample_env_blank sample_document sample_position sample_options
       (language_of sample_env_blank sample_document) = (sample_events, Inr (Some sample_request))
   \<and> cache_miss sample_world sample_request
   \<and> stream_loop sample_transforms sample_env_blank (language_of sample_env_blank sample_document)
       sample_options sample_request = Inr \<lparr>text_acc = ''   '', cancelled = False, received = 2\<rparr>
   \<and> trim (text_acc \<lparr>text_acc = ''   '', cancelled = False, received = 2\<rparr>) = []
   \<and> fst (getTabCompletion sample_transforms sample_env_blank sample_document sample_position
            sample_options sample_world) = Resolved None
   \<and> cache_lookup (cache (snd (getTabCompletion sample_transforms sample_env_blank sample_document
            sample_position sample_options sample_world))) = cache_lookup (cache sample_world)
   \<and> cache_writes (trace (snd (getTabCompletion sample_transforms sample_env_blank sample_document
            sample_position sample_options sample_world))) = cache_writes (trace sample_world)"
  using blank_completion_absent_uncached[OF blank_passes blank_built sample_miss blank_loop blank_trim]
    blank_passes blank_built sample_miss blank_loop blank_trim
  by simp

subsection \<open>The cache after a served miss\<close>

text \<open>
  Claim C1, as amended. Take a call that returns an outcome after a cache miss. The
  outcome carries the rendered prompt and the final completion text, but
  \<open>getTabCompletion\<close> stores nothing: the cache holds after the call exactly what it held
  before, the trace has gained no cache write, and the same call made again on the world
  the first one left is again not a cache hit. Once the completion text of the outcome
  has been put into the cache under the prompt of the outcome (the cache having room for
  an entry), the same call made again returns an outcome with \<open>cacheHit\<close> set and the
  same completion text.
\<close>

theorem served_miss_not_stored:
  assumes "getTabCompletion G env document pos options w = (Resolved (Some out), w')"
    and "\<not> cacheHit out"
    and "0 < capacity (cache w')"
  shows "cache_lookup (cache w') = cache_lookup (cache w)
       \<and> cache_writes (trace w') = cache_writes (trace w)
       \<and> (\<forall>out2 w2. getTabCompletion G env document pos options w' = (Resolved (Some out2), w2)
             \<longrightarrow> \<not> cacheHit out2)
       \<and> (\<exists>out2 w2.
             getTabCompletion G env document pos options
               (w'\<lparr>cache := cache_put (cache w') (prompt out) (completion out)\<rparr>) = (Resolved (Some out2), w2)
             \<and> cacheHit out2 \<and> completion out2 = completion out)"
proof -
  let ?lang = "language_of env document"
  from served_shape[OF assms(1)] obtain es rq where
    p: "passes_filter env document pos" and
    b: "build_request env document pos options ?lang = (es, Inr (Some rq))" by blast
  have miss: "cache_miss w rq"
  proof (rule ccontr)
    assume "\<not> cache_miss w rq"
    with cache_miss_cases[of w rq] obtain c cs where
      "cache_lookup (cache w) (rq_prompt rq) = Some (c # cs)" by blast
    with p b assms(1) have "out = outcome env rq (c # cs) True"
      by (simp add: getTabCompletion_built complete_hit)
    with assms(2) show False by (simp add: outcome_def)
  qed
  with p b assms(1) have g: "generate G env ?lang options rq (probed w es rq) = (Resolved (Some out), w')"
    by (simp add: getTabCompletion_miss)
  from generate_served[OF g] obtain r :: loop_end where
    out: "out = outcome env rq (trimEnd (text_acc r)) False" and ne: "trim (text_acc r) \<noteq> []"
    by auto
  have c1: "cache_lookup (cache w') = cache_lookup (cache w)"
    using getTabCompletion_cache[of G env document pos options w] assms(1) by simp
  have c2: "cache_writes (trace w') = cache_writes (trace w)"
    using getTabCompletion_writes[of G env document pos options w] assms(1) by simp
  have miss': "cache_miss w' rq" using miss c1 by (simp add: cache_miss_def)
  have c3: "\<forall>out2 w2. getTabCompletion G env document pos options w' = (Resolved (Some out2), w2)
             \<longrightarrow> \<not> cacheHit out2"
  proof (intro allI impI)
    fix out2 w2
    assume "getTabCompletion G env document pos options w' = (Resolved (Some out2), w2)"
    with p b miss' have "generate G env ?lang options rq (probed w' es rq) = (Resolved (Some out2), w2)"
      by (simp add: getTabCompletion_miss)
    from generate_served[OF this] show "\<not> cacheHit out2" by (auto simp: outcome_def)
  qed
  obtain c cs where filled: "completion out = c # cs"
    using out trimEnd_nonempty[OF ne] by (cases "trimEnd (text_acc r)") (auto simp: outcome_def)
  let ?stored = "w'\<lparr>cache := cache_put (cache w') (prompt out) (completion out)\<rparr>"
  have hit: "cache_lookup (cache ?stored) (rq_prompt rq) = Some (c # cs)"
    using cache_put_lookup[OF assms(3), of "prompt out" "completion out"] out filled
    by (simp add: outcome_def)
  have "getTabCompletion G env document pos options ?stored =
      complete G env ?lang options rq (?stored\<lparr>trace := trace ?stored @ es\<rparr>)"
    by (rule getTabCompletion_built[OF p b])
  also have "\<dots> = (Resolved (Some (outcome env rq (c # cs) True)), probed ?stored es rq)"
    by (rule complete_hit[OF hit])
  finally have "getTabCompletion G env document pos options ?stored =
      (Resolved (Some (outcome env rq (c # cs) True)), probed ?stored es rq)" .
  then have c4: "\<exists>out2 w2. getTabCompletion G env document pos options ?stored = (Resolved (Some out2), w2)
             \<and> cacheHit out2 \<and> completion out2 = completion out"
    using filled by (simp add: outcome_def)
  from c1 c2 c3 c4 show ?thesis by blast
qed

lemma sample_second_call:
  "fst (getTabCompletion sample_transforms sample_env sample_document sample_position
     sample_options sample_world_after) = Resolved (Some (outcome sample_env sample_request ''42;'' False))"
proof -
  have "cache_miss sample_world_after sample_request"
    by (simp add: cache_miss_def cache_lookup_def sample_world_after_def sample_world_def)
  then have "getTabCompletion sample_transforms sample_env sample_document sample_position
      sample_options sample_world_after =
    generate sample_transforms sample_env (language_of sample_env sample_document) sample_options
      sample_request (probed sample_world_after sample_events sample_request)"
    by (rule getTabCompletion_miss[OF sample_passes sample_built])
  with sample_loop show ?thesis
    by (simp add: generate_def Let_def trim_def trimEnd_def js_space_def)
qed

text \<open>
  The claim as first stated has the completion stored by the call itself, so that the
  same call made again is a cache hit. The sample call returns the completion \<open>42;\<close>
  after a miss; made again on the world it left, it is again a miss.
\<close>

theorem served_miss_not_stored_counterexample:
  "(\<exists>out. fst (getTabCompletion sample_transforms sample_env sample_document
       sample_position sample_options sample_world) = Resolved (Some out)
       \<and> completion out = ''42;'' \<and> \<not> cacheHit out)
   \<and> cache_lookup (cache (snd (getTabCompletion sample_transforms sample_env sample_document
       sample_position sample_options sample_world))) ''let x = |f();'' = None
   \<and> (\<exists>out2. fst (getTabCompletion sample_transforms sample_env sample_document
       sample_position sample_options
       (snd (getTabCompletion sample_transforms sample_env sample_document sample_position
               sample_options sample_world))) = Resolved (Some out2)
       \<and> \<not> cacheHit out2)"
  by (simp add: sample_call sample_second_call)
     (simp add: outcome_def cache_lookup_def sample_world_after_def sample_world_def)

theorem served_miss_not_stored_witness:
  "getTabCompletion sample_transforms sample_env sample_document sample_position sample_options
     sample_world = (Resolved (Some (outcome sample_env sample_request ''42;'' False)), sample_world_after)
   \<and> \<not> cacheHit (outcome sample_env sample_request ''42;'' False)
   \<and> 0 < capacity (cache sample_world_after)
   \<and> cache_lookup (cache sample_world_after) = cache_lookup (cache sample_world)
   \<and> (\<exists>out2 w2.
         getTabCompletion sample_transforms sample_env sample_document sample_position sample_options
           (sample_world_after\<lparr>cache :=
              cache_put (cache sample_world_after) ''let x = |f();'' ''42;''\<rparr>) = (Resolved (Some out2), w2)
         \<and> cacheHit out2 \<and> completion out2 = ''42;'')"
proof -
  have a: "\<not> cacheHit (outcome sample_env sample_request ''42;'' False)"
    by (simp add: outcome_def)
  have b: "0 < capacity (cache sample_world_after)"
    by (simp add: sample_world_after_def sample_world_def)
  show ?thesis
    using served_miss_not_stored[OF sample_call a b] sample_call a b
    by (simp add: outcome_def sample_request_def)
qed

subsection \<open>Exceptions and the error messages shown\<close>

lemma call_effects:
  "(raised G env document pos options w = Some Nullish \<longrightarrow>
      fst (getTabCompletion G env document pos options w) = Rejected)
   \<and> (\<forall>m. raised G env document pos options w = Some (Thrown m) \<longrightarrow>
        fst (getTabCompletion G env document pos options w) = Resolved None)
   \<and> shown (snd (getTabCompletion G env document pos options w)) =
       shown w @ (case raised G env document pos options w of
                    Some (Thrown m) \<Rightarrow> if m \<in> errorsShown w then [] else [m]
                  | _ \<Rightarrow> [])
   \<and> errorsShown (snd (getTabCompletion G env document pos options w)) =
       errorsShown w \<union> (case raised G env document pos options w of
                           Some (Thrown m) \<Rightarrow> {m}
                         | _ \<Rightarrow> {})"
proof (cases "passes_filter env document pos")
  case False
  then show ?thesis by (simp add: getTabCompletion_filtered raised_def)
next
  case True
  obtain es r where b: "build_request env document pos options (language_of env document) = (es, r)"
    by (cases "build_request env document pos options (language_of env document)")
  have q: "quiet es" using b by (rule quiet_built)
  then have m: "messages es = []" by (simp add: quiet_def)
  show ?thesis
  proof (cases r)
    case (Inl e)
    with True b m show ?thesis
      by (simp add: getTabCompletion_def passes_filter_def language_of_def[symmetric] raised_def
          shown_def on_error_messages on_error_errorsShown on_error_fst split: error.splits)
  next
    case (Inr req)
    show ?thesis
    proof (cases req)
      case None
      with True b m Inr show ?thesis
        by (simp add: getTabCompletion_def passes_filter_def language_of_def[symmetric] raised_def
            shown_def)
    next
      case (Some rq)
      with b Inr have b': "build_request env document pos options (language_of env document)
          = (es, Inr (Some rq))" by simp
      from cache_miss_cases[of w rq] show ?thesis
      proof
        assume miss: "cache_miss w rq"
        show ?thesis
          using True b' miss q
          by (simp add: getTabCompletion_miss raised_def shown_def generate_messages
              generate_errorsShown generate_raised probed_messages probed_errorsShown
              split: sum.splits error.splits)
      next
        assume "\<exists>c cs. cache_lookup (cache w) (rq_prompt rq) = Some (c # cs)"
        then obtain c cs where hit: "cache_lookup (cache w) (rq_prompt rq) = Some (c # cs)" by blast
        then have nm: "\<not> cache_miss w rq" by (simp add: cache_miss_def)
        show ?thesis
          using True b' hit nm q
          by (simp add: getTabCompletion_built complete_hit raised_def shown_def
              probed_messages probed_errorsShown)
      qed
    qed
  qed
qed

text \<open>
  What holds of the \<^verbatim>\<open>catch\<close> block. A thrown value other than \<^verbatim>\<open>undefined\<close>
  and \<^verbatim>\<open>null\<close> does not leave the function: the call resolves to absent, what reading
  \<^verbatim>\<open>message\<close> of the value gives is in \<open>errorsShown\<close> afterwards, and it has been
  handed to \<^verbatim>\<open>showErrorMessage\<close> only if it was not there before.
\<close>

lemma thrown_value_caught:
  assumes "raised G env document pos options w = Some (Thrown m)"
  shows "fst (getTabCompletion G env document pos options w) = Resolved None
       \<and> m \<in> errorsShown (snd (getTabCompletion G env document pos options w))
       \<and> shown (snd (getTabCompletion G env document pos options w)) =
           shown w @ (if m \<in> errorsShown w then [] else [m])"
  using call_effects[of G env document pos options w] assms by simp

lemma shown_once_call:
  "shown_once w \<Longrightarrow> shown_once (snd (getTabCompletion G env document pos options w))"
  using call_effects[of G env document pos options w]
  by (auto simp: shown_once_def split: option.splits error.splits if_splits)

lemma shown_once_calls: "shown_once w \<Longrightarrow> shown_once (getTabCompletions G cs w)"
  by (induction cs arbitrary: w) (simp_all add: shown_once_call)

text \<open>
  Starting from a world in which no message has been shown twice and every message
  shown is in \<open>errorsShown\<close> (as when the extension starts), no sequence of calls shows a
  message twice.
\<close>

lemma no_message_shown_twice:
  "shown_once w \<Longrightarrow> distinct (shown (getTabCompletions G cs w))"
  using shown_once_calls[of w G cs] by (simp add: shown_once_def)

lemma sample_invocations_shown:
  "shown (getTabCompletions sample_transforms sample_invocations sample_world)
     = [Some ''model not found'']"
  by (simp add: sample_invocations_def sample_env_no_model_def sample_env_broken_stream_def
      sample_defs run_defs loop_defs getTabCompletion_def complete_def generate_def on_error_def
      cache_get_def shown_def)

text \<open>
  Claim C6. Every exception thrown inside the \<^verbatim>\<open>try\<close> block, from loading the
  model to the end of the stream, is to be caught, the call resolving to absent, and a
  message is to be shown at most once. The function does so for every thrown value but
  \<^verbatim>\<open>undefined\<close> and \<^verbatim>\<open>null\<close>: on those the \<^verbatim>\<open>catch\<close> block, reading
  \<^verbatim>\<open>e.message\<close>, throws itself, and the call rejects. Here the promise of the model
  loader rejects with no reason given: the call writes its warning and rejects.
\<close>

theorem bare_rejection_escapes:
  "raised sample_transforms sample_env_rejected_bare sample_document sample_position
     sample_options sample_world = Some Nullish
   \<and> getTabCompletion sample_transforms sample_env_rejected_bare sample_document sample_position
       sample_options sample_world
     = (Rejected, sample_world\<lparr>trace := [GetModel, ConsoleWarn Nullish]\<rparr>)"
  by (simp add: raised_def getTabCompletion_def on_error_def sample_env_rejected_bare_def
      sample_defs run_defs)

subsection \<open>The race of the symbol lookup against its timer\<close>

lemma chooseTemplate_lookup:
  "chooseTemplate (env\<lparr>lspLookup := l\<rparr>) options m = chooseTemplate env options m"
  by (simp add: chooseTemplate_def split: option.splits list.splits)

lemma build_request_lookup:
  "extrasSnippets (env\<lparr>lspLookup := l\<rparr>) = extrasSnippets env \<Longrightarrow>
   build_request (env\<lparr>lspLookup := l\<rparr>) document pos options lang =
     build_request env document pos options lang"
  by (simp add: build_request_def chooseTemplate_lookup Let_def cong: option.case_cong prod.case_cong)

lemma on_error_lookup: "on_error (env\<lparr>lspLookup := l\<rparr>) e w = on_error env e w"
  by (simp add: on_error_def)

lemma outcome_lookup: "outcome (env\<lparr>lspLookup := l\<rparr>) rq txt hit = outcome env rq txt hit"
  by (simp add: outcome_def)

lemma generator_lookup:
  "generator (env\<lparr>lspLookup := l\<rparr>) lang options rq = generator env lang options rq"
  by (simp add: generator_def)

lemma stream_loop_lookup:
  "stream_loop G (env\<lparr>lspLookup := l\<rparr>) lang options rq = stream_loop G env lang options rq"
  by (simp add: stream_loop_def generator_lookup)

lemma generate_lookup:
  "generate G (env\<lparr>lspLookup := l\<rparr>) lang options rq w = generate G env lang options rq w"
  by (simp add: generate_def generator_lookup stream_loop_lookup outcome_lookup on_error_lookup
      Let_def split: sum.splits)

lemma complete_lookup:
  "complete G (env\<lparr>lspLookup := l\<rparr>) lang options rq w = complete G env lang options rq w"
  by (simp add: complete_def generate_lookup outcome_lookup Let_def
      split: prod.splits option.splits list.splits)

lemma getTabCompletion_lookup:
  "extrasSnippets (env\<lparr>lspLookup := l\<rparr>) = extrasSnippets env \<Longrightarrow>
   getTabCompletion G (env\<lparr>lspLookup := l\<rparr>) document pos options w =
     getTabCompletion G env document pos options w"
  by (simp add: getTabCompletion_def build_request_lookup on_error_lookup complete_lookup Let_def
      split: prod.splits option.splits sum.splits)

lemma build_request_prompt:
  "build_request env document pos options lang = (es, Inr (Some rq)) \<Longrightarrow>
   \<exists>xs. extrasSnippets env = Inr xs \<and> map pr_extrasSnippets (prompt_requests es) = [xs]"
  by (auto simp: build_request_def andThen_def call_def silent_def Let_def
           split: sum.splits option.splits prod.splits)

lemma generate_prompt_requests:
  "prompt_requests (trace (snd (generate G env lang options rq w))) = prompt_requests (trace w)"
  by (simp add: generate_def Let_def split: sum.splits)

lemma complete_prompt_requests:
  "prompt_requests (trace (snd (complete G env lang options rq w))) = prompt_requests (trace w)"
  by (cases "cache_get (cache w) (rq_prompt rq)")
     (simp add: complete_def Let_def generate_prompt_requests split: option.splits list.splits)

lemma getTabCompletion_prompt_requests:
  "passes_filter env document pos \<Longrightarrow>
   build_request env document pos options (language_of env document) = (es, Inr (Some rq)) \<Longrightarrow>
   prompt_requests (trace (snd (getTabCompletion G env document pos options w))) =
     prompt_requests (trace w) @ prompt_requests es"
  by (simp add: getTabCompletion_built complete_prompt_requests)

text \<open>
  Claim C7. The lookup of definitions is raced against a timer of 100 milliseconds that
  resolves to the empty list. A lookup that settles before the timer fires decides the
  race: the snippets are its answer. When the lookup has not settled within 100
  milliseconds (it settles later or never, with an answer or with a failure), the
  snippets are the empty list, and the whole call, result and world, is the call in which
  the lookup answers the empty list at once: the timeout raises nothing, shows nothing
  and changes no result. The snippets the race gives are the ones a call that builds its
  request hands to \<open>constructAutocompletePrompt\<close>.
\<close>

theorem lookup_raced_against_timer:
  "(before_timer (lspLookup env) \<longrightarrow> extrasSnippets env = answer (lspLookup env))
   \<and> (\<not> on_time (lspLookup env) \<longrightarrow>
        extrasSnippets env = Inr []
        \<and> getTabCompletion G env document pos options w =
            getTabCompletion G (env\<lparr>lspLookup := \<lparr>settles_after = Some 0, answer = Inr []\<rparr>\<rparr>)
              document pos options w)
   \<and> (passes_filter env document pos
        \<and> build_request env document pos options (language_of env document) = (es, Inr (Some rq))
        \<longrightarrow> (\<exists>xs. extrasSnippets env = Inr xs
               \<and> map pr_extrasSnippets
                    (prompt_requests (trace (snd (getTabCompletion G env document pos options w))))
                   = map pr_extrasSnippets (prompt_requests (trace w)) @ [xs]))"
proof (intro conjI impI)
  assume "before_timer (lspLookup env)"
  then show "extrasSnippets env = answer (lspLookup env)"
    by (auto simp: extrasSnippets_def before_timer_def split: option.splits)
next
  assume late: "\<not> on_time (lspLookup env)"
  then show e: "extrasSnippets env = Inr []"
    by (auto simp: extrasSnippets_def on_time_def split: option.splits)
  have "extrasSnippets (env\<lparr>lspLookup := \<lparr>settles_after = Some 0, answer = Inr []\<rparr>\<rparr>) = Inr []"
    by (simp add: extrasSnippets_def)
  with e show "getTabCompletion G env document pos options w =
      getTabCompletion G (env\<lparr>lspLookup := \<lparr>settles_after = Some 0, answer = Inr []\<rparr>\<rparr>)
        document pos options w"
    by (simp add: getTabCompletion_lookup)
next
  assume a: "passes_filter env document pos
      \<and> build_request env document pos options (language_of env document) = (es, Inr (Some rq))"
  from build_request_prompt[OF a[THEN conjunct2]] a
  show "\<exists>xs. extrasSnippets env = Inr xs
      \<and> map pr_extrasSnippets
           (prompt_requests (trace (snd (getTabCompletion G env document pos options w))))
          = map pr_extrasSnippets (prompt_requests (trace w)) @ [xs]"
    by (auto simp: getTabCompletion_prompt_requests)
qed

lemma slow_lookup_passes: "passes_filter sample_env_slow_lookup sample_document sample_position"
  by (simp add: sample_env_slow_lookup_def sample_defs run_defs)

lemma slow_lookup_built:
  "build_request sample_env_slow_lookup sample_document sample_position sample_options
     (language_of sample_env_slow_lookup sample_document)
   = (sample_events_with [], Inr (Some sample_request))"
  by (simp add: sample_env_slow_lookup_def sample_defs run_defs)

lemma slow_lookup_loop:
  "stream_loop sample_transforms sample_env_slow_lookup
     (language_of sample_env_slow_lookup sample_document) sample_options sample_request
   = Inr \<lparr>text_acc = ''42;  '', cancelled = False, received = 2\<rparr>"
  by (simp add: sample_env_slow_lookup_def sample_defs loop_defs language_of_def Let_def)

lemma slow_lookup_call:
  "getTabCompletion sample_transforms sample_env_slow_lookup sample_document
     sample_position sample_options sample_world
   = (Resolved (Some (outcome sample_env_slow_lookup sample_request ''42;'' False)),
      snd (generate sample_transforms sample_env_slow_lookup
        (language_of sample_env_slow_lookup sample_document) sample_options sample_request
        (probed sample_world (sample_events_with []) sample_request)))"
  using slow_lookup_loop
  by (simp add: getTabCompletion_miss[OF slow_lookup_passes slow_lookup_built sample_miss]
      generate_def trim_def trimEnd_def js_space_def Let_def)

lemma slow_lookup_shown:
  "shown (snd (generate sample_transforms sample_env_slow_lookup
     (language_of sample_env_slow_lookup sample_document) sample_options sample_request
     (probed sample_world (sample_events_with []) sample_request))) = []"
  using slow_lookup_loop
  by (simp add: shown_def generate_def Let_def probed_def sample_events_with_def sample_world_def
      trim_def trimEnd_def js_space_def)

theorem lookup_raced_against_timer_witness:
  "before_timer (lspLookup sample_env)
   \<and> extrasSnippets sample_env = Inr [''def f()'']
   \<and> passes_filter sample_env sample_document sample_position
   \<and> build_request sample_env sample_document sample_position sample_options
       (language_of sample_env sample_document) = (sample_events, Inr (Some sample_request))
   \<and> map pr_extrasSnippets (prompt_requests (trace (snd (getTabCompletion sample_transforms
        sample_env sample_document sample_position sample_options sample_world))))
       = [[''def f()'']]
   \<and> \<not> on_time (lspLookup sample_env_slow_lookup)
   \<and> answer (lspLookup sample_env_slow_lookup) = Inl (Thrown (Some ''server crashed''))
   \<and> extrasSnippets sample_env_slow_lookup = Inr []
   \<and> getTabCompletion sample_transforms sample_env_slow_lookup sample_document sample_position
        sample_options sample_world =
       getTabCompletion sample_transforms
         (sample_env_slow_lookup\<lparr>lspLookup := \<lparr>settles_after = Some 0, answer = Inr []\<rparr>\<rparr>)
         sample_document sample_position sample_options sample_world
   \<and> passes_filter sample_env_slow_lookup sample_document sample_position
   \<and> build_request sample_env_slow_lookup sample_document sample_position sample_options
       (language_of sample_env_slow_lookup sample_document)
       = (sample_events_with [], Inr (Some sample_request))
   \<and> map pr_extrasSnippets (prompt_requests (trace (snd (getTabCompletion sample_transforms
        sample_env_slow_lookup sample_document sample_position sample_options sample_world))))
       = [[]]
   \<and> fst (getTabCompletion sample_transforms sample_env_slow_lookup sample_document
        sample_position sample_options sample_world)
       = Resolved (Some (outcome sample_env_slow_lookup sample_request ''42;'' False))
   \<and> shown (snd (getTabCompletion sample_transforms sample_env_slow_lookup sample_document
        sample_position sample_options sample_world)) = []"
proof -
  have a: "before_timer (lspLookup sample_env)"
    by (simp add: before_timer_def sample_env_def)
  have b: "answer (lspLookup sample_env) = Inr [''def f()'']"
    by (simp add: sample_env_def)
  have c: "\<not> on_time (lspLookup sample_env_slow_lookup)"
    by (simp add: on_time_def sample_env_slow_lookup_def sample_env_def)
  have d: "answer (lspLookup sample_env_slow_lookup) = Inl (Thrown (Some ''server crashed''))"
    by (simp add: sample_env_slow_lookup_def sample_env_def)
  have e: "prompt_requests (trace sample_world) = []"
    by (simp add: sample_world_def)
  note in_time = lookup_raced_against_timer[of sample_env sample_transforms sample_document
        sample_position sample_options sample_world sample_events sample_request]
  note late = lookup_raced_against_timer[of sample_env_slow_lookup sample_transforms
        sample_document sample_position sample_options sample_world "sample_events_with []"
        sample_request]
  have s1: "extrasSnippets sample_env = Inr [''def f()'']"
    using in_time a b by simp
  have p1: "map pr_extrasSnippets (prompt_requests (trace (snd (getTabCompletion
        sample_transforms sample_env sample_document sample_position sample_options
        sample_world)))) = [[''def f()'']]"
    using in_time[THEN conjunct2, THEN conjunct2] sample_passes sample_built s1 e by auto
  have s2: "extrasSnippets sample_env_slow_lookup = Inr []"
    using late c by simp
  have q2: "getTabCompletion sample_transforms sample_env_slow_lookup sample_document
        sample_position sample_options sample_world =
       getTabCompletion sample_transforms
         (sample_env_slow_lookup\<lparr>lspLookup := \<lparr>settles_after = Some 0, answer = Inr []\<rparr>\<rparr>)
         sample_document sample_position sample_options sample_world"
    using late c by simp
  have p2: "map pr_extrasSnippets (prompt_requests (trace (snd (getTabCompletion
        sample_transforms sample_env_slow_lookup sample_document sample_position sample_options
        sample_world)))) = [[]]"
    using late[THEN conjunct2, THEN conjunct2] slow_lookup_passes slow_lookup_built s2 e by auto
  have r2: "fst (getTabCompletion sample_transforms sample_env_slow_lookup sample_document
        sample_position sample_options sample_world)
       = Resolved (Some (outcome sample_env_slow_lookup sample_request ''42;'' False))"
    by (simp add: slow_lookup_call)
  have h2: "shown (snd (getTabCompletion sample_transforms sample_env_slow_lookup
        sample_document sample_position sample_options sample_world)) = []"
    by (simp add: slow_lookup_call slow_lookup_shown)
  from a s1 sample_passes sample_built p1 c d s2 q2 slow_lookup_passes slow_lookup_built p2 r2 h2
  show ?thesis by (intro conjI)
qed

end
